theory Spec2Isabelle
  imports Main "HOL-Library.Word" "HOL-Library.Log_Nat" "HOL-Library.Multiset"
begin

section \<open>Machine numbers\<close>

text \<open>
  Go's \<^verbatim>\<open>int64\<close> is a 64-bit word read as a signed number: \<open>+\<close> and \<open>-\<close> wrap,
  \<open>sint\<close> gives the value, \<open><s\<close> and \<open>\<le>s\<close> compare signed values. Go's \<^verbatim>\<open>int\<close> has
  64 bits on the 64-bit Linux target the Dockerfile builds for.
\<close>

type_synonym int64 = "64 word"

subsection \<open>float64\<close>

text \<open>
  A \<^verbatim>\<open>float64\<close> is an IEEE 754 binary64 number: a finite value (a rational with a
  53-bit significand), an infinity, or a NaN. The two zeros compare equal and are both
  \<open>Fin 0\<close>; the sign of a zero shows only when something is divided by it, and every
  divisor of this program is the conversion of an integer, whose zero is \<open>+0\<close>.
  Each operation computes the exact result and rounds it to the nearest binary64 number,
  ties to the even significand, as Go does for \<^verbatim>\<open>float64\<close>.
\<close>

datatype float64 = Fin rat | PInf | NInf | NaN

definition ilog2 :: "rat \<Rightarrow> int" where
  \<comment> \<open>the integer \<open>k\<close> with \<open>2 powi k \<le> \<bar>x\<bar> < 2 powi (k + 1)\<close>, for \<open>x \<noteq> 0\<close>\<close>
  "ilog2 x = (if 1 \<le> \<bar>x\<bar> then bitlen \<lfloor>\<bar>x\<bar>\<rfloor> - 1 else - bitlen (\<lceil>1 / \<bar>x\<bar>\<rceil> - 1))"

definition round_even :: "rat \<Rightarrow> int" where
  \<comment> \<open>the nearest integer, a tie going to the even one\<close>
  "round_even r = (let f = \<lfloor>r\<rfloor>; d = r - of_int f in
     if d < 1 / 2 then f else if 1 / 2 < d then f + 1 else if even f then f else f + 1)"

definition f64_round :: "rat \<Rightarrow> float64" where
  \<comment> \<open>round to nearest binary64: 53 significant bits, exponent of the last place at
      least -1074 (subnormal numbers), overflow to an infinity from \<open>2 ^ 1024\<close> on\<close>
  "f64_round x = (if x = 0 then Fin 0 else
     let e = max (ilog2 x - 52) (- 1074);
         m = round_even (x / (2::rat) powi e)
     in if 2 ^ 1024 \<le> \<bar>of_int m * (2::rat) powi e\<bar> then (if 0 < x then PInf else NInf)
        else Fin (of_int m * (2::rat) powi e))"

definition f64_of_int64 :: "int64 \<Rightarrow> float64" where
  \<comment> \<open>the conversion \<^verbatim>\<open>float64(n)\<close>\<close>
  "f64_of_int64 n = f64_round (of_int (sint n))"

fun f64_div :: "float64 \<Rightarrow> float64 \<Rightarrow> float64" where
  "f64_div NaN _ = NaN"
| "f64_div _ NaN = NaN"
| "f64_div (Fin a) (Fin b) =
     (if b = 0 then (if a = 0 then NaN else if 0 < a then PInf else NInf)
      else f64_round (a / b))"
| "f64_div (Fin a) PInf = Fin 0"
| "f64_div (Fin a) NInf = Fin 0"
| "f64_div PInf (Fin b) = (if 0 \<le> b then PInf else NInf)"
| "f64_div NInf (Fin b) = (if 0 \<le> b then NInf else PInf)"
| "f64_div PInf PInf = NaN"
| "f64_div PInf NInf = NaN"
| "f64_div NInf PInf = NaN"
| "f64_div NInf NInf = NaN"

fun f64_mul :: "float64 \<Rightarrow> float64 \<Rightarrow> float64" where
  "f64_mul NaN _ = NaN"
| "f64_mul _ NaN = NaN"
| "f64_mul (Fin a) (Fin b) = f64_round (a * b)"
| "f64_mul (Fin a) PInf = (if a = 0 then NaN else if 0 < a then PInf else NInf)"
| "f64_mul (Fin a) NInf = (if a = 0 then NaN else if 0 < a then NInf else PInf)"
| "f64_mul PInf (Fin b) = (if b = 0 then NaN else if 0 < b then PInf else NInf)"
| "f64_mul NInf (Fin b) = (if b = 0 then NaN else if 0 < b then NInf else PInf)"
| "f64_mul PInf PInf = PInf"
| "f64_mul PInf NInf = NInf"
| "f64_mul NInf PInf = NInf"
| "f64_mul NInf NInf = PInf"

fun f64_less :: "float64 \<Rightarrow> float64 \<Rightarrow> bool" where
  \<comment> \<open>\<^verbatim>\<open>a < b\<close>: false whenever an operand is a NaN\<close>
  "f64_less NaN _ = False"
| "f64_less _ NaN = False"
| "f64_less (Fin a) (Fin b) = (a < b)"
| "f64_less (Fin a) PInf = True"
| "f64_less (Fin a) NInf = False"
| "f64_less PInf _ = False"
| "f64_less NInf (Fin b) = True"
| "f64_less NInf PInf = True"
| "f64_less NInf NInf = False"

definition f64_greater :: "float64 \<Rightarrow> float64 \<Rightarrow> bool" where
  \<comment> \<open>\<^verbatim>\<open>a > b\<close>\<close>
  "f64_greater a b = f64_less b a"

definition f64_ge :: "float64 \<Rightarrow> float64 \<Rightarrow> bool" where
  \<comment> \<open>\<^verbatim>\<open>a >= b\<close>: false whenever an operand is a NaN\<close>
  "f64_ge a b = (a \<noteq> NaN \<and> b \<noteq> NaN \<and> \<not> f64_less a b)"

section \<open>The data model (internal/storage/models.go)\<close>

text \<open>
  A \<^verbatim>\<open>time.Time\<close> is an instant, counted in nanoseconds; a \<^verbatim>\<open>time.Duration\<close> is an
  \<^verbatim>\<open>int64\<close> of nanoseconds.
\<close>

type_synonym time = int

record Sound =
  ID :: int64
  Title :: string
  Author :: string
  URL :: string
  UsesCount :: int64
  Category :: string
  CreatedAt :: time
  UpdatedAt :: time

text \<open>
  The fields \<^verbatim>\<open>ID\<close> and \<^verbatim>\<open>UsesCount\<close> of \<^verbatim>\<open>SoundHistory\<close> carry the suffix \<open>_hist\<close>:
  the names are taken by \<^verbatim>\<open>Sound\<close>.
\<close>

record SoundHistory =
  ID_hist :: int64
  SoundID :: int64
  UsesCount_hist :: int64
  RecordedAt :: time

text \<open>\<^verbatim>\<open>TrendingSound\<close> embeds a \<^verbatim>\<open>Sound\<close>; the embedded struct is the field \<open>Sound\<close>.\<close>

record TrendingSound =
  Sound :: Sound
  GrowthPercent :: float64
  OldUsesCount :: int64

section \<open>The SQLite storage (package storage, migrations/init.sql)\<close>

text \<open>
  An \<^verbatim>\<open>error\<close> value: the sentinel \<^verbatim>\<open>sql.ErrNoRows\<close>, an error of the database driver
  with its message, or \<^verbatim>\<open>fmt.Errorf("context: %w", err)\<close> wrapping another error.
  A nil \<^verbatim>\<open>error\<close> is \<open>None\<close>, and so is a nil pointer.
\<close>

datatype error = ErrNoRows | Driver string | Errorf string error

text \<open>
  The state behind \<^verbatim>\<open>*sql.DB\<close>. The tables \<^verbatim>\<open>sounds\<close> and \<^verbatim>\<open>sound_history\<close> of
  \<^verbatim>\<open>init.sql\<close> are the lists \<open>sounds_table\<close> and \<open>sound_history_table\<close> of their rows in rowid order, every row written by this
  program (so no column is NULL); \<open>sounds_seq\<close> and \<open>sound_history_seq\<close> are the largest
  rowids handed out so far (\<^verbatim>\<open>AUTOINCREMENT\<close>).

  The environment is part of the state. \<open>faults\<close> is the schedule of driver failures:
  each call into the driver takes the head of the list, \<open>Some msg\<close> making that call fail
  with the message, \<open>None\<close> and the empty list letting it through. \<open>now\<close> is the clock,
  and each reading of \<^verbatim>\<open>time.Now()\<close> first advances it by the head of \<open>ticks\<close>
  (nanoseconds; nothing when the list is empty).
\<close>

record database =
  sounds_table :: "Sound list"
  sounds_seq :: int64
  sound_history_table :: "SoundHistory list"
  sound_history_seq :: int64
  faults :: "string option list"
  now :: time
  ticks :: "nat list"

definition driver_call :: "database \<Rightarrow> string option \<times> database" where
  "driver_call db =
     (case faults db of [] \<Rightarrow> (None, db) | f # fs \<Rightarrow> (f, db\<lparr>faults := fs\<rparr>))"

definition time_Now :: "database \<Rightarrow> time \<times> database" where
  "time_Now db =
     (case ticks db of
        [] \<Rightarrow> (now db, db)
      | d # ds \<Rightarrow> (now db + int d, db\<lparr>now := now db + int d, ticks := ds\<rparr>))"

definition max_int64 :: int64 where
  "max_int64 = 9223372036854775807"

text \<open>
  \<^verbatim>\<open>db.QueryRow(query, args...).Scan(...)\<close> on the rows the query selects, in the order
  the query puts them: the first row, \<^verbatim>\<open>sql.ErrNoRows\<close> when there is none, or the
  driver's error.
\<close>

definition QueryRow_Scan :: "'a list \<Rightarrow> database \<Rightarrow> ('a option \<times> error option) \<times> database" where
  "QueryRow_Scan rows db =
     (case driver_call db of
        (Some msg, db') \<Rightarrow> ((None, Some (Driver msg)), db')
      | (None, db') \<Rightarrow>
          (case rows of
             [] \<Rightarrow> ((None, Some ErrNoRows), db')
           | row # _ \<Rightarrow> ((Some row, None), db')))"

text \<open>
  \<^verbatim>\<open>SaveSound\<close>: the INSERT fails when the driver does, when the url is in the table
  already (\<^verbatim>\<open>url TEXT UNIQUE NOT NULL\<close>), or when the rowids are used up. On success the
  caller's struct gets the new id; the struct as the call leaves it is part of the result.
\<close>

definition SaveSound :: "Sound \<Rightarrow> database \<Rightarrow> (Sound \<times> error option) \<times> database" where
  "SaveSound sound db =
     (case driver_call db of
        (Some msg, db1) \<Rightarrow> ((sound, Some (Errorf ''failed to save sound'' (Driver msg))), db1)
      | (None, db1) \<Rightarrow>
          if URL sound \<in> URL ` set (sounds_table db1) then
            ((sound, Some (Errorf ''failed to save sound''
                (Driver ''UNIQUE constraint failed: sounds.url''))), db1)
          else if sounds_seq db1 = max_int64 then
            ((sound, Some (Errorf ''failed to save sound''
                (Driver ''database or disk is full''))), db1)
          else
            let rowid = sounds_seq db1 + 1;
                db2 = db1\<lparr>sounds_table := sounds_table db1 @ [sound\<lparr>ID := rowid\<rparr>], sounds_seq := rowid\<rparr>
            in case driver_call db2 of
                 (Some msg, db3) \<Rightarrow>
                   ((sound, Some (Errorf ''failed to get last insert id'' (Driver msg))), db3)
               | (None, db3) \<Rightarrow> ((sound\<lparr>ID := rowid\<rparr>, None), db3))"

definition GetSoundByURL :: "string \<Rightarrow> database \<Rightarrow> (Sound option \<times> error option) \<times> database" where
  "GetSoundByURL url db =
     (case QueryRow_Scan (filter (\<lambda>r. URL r = url) (sounds_table db)) db of
        ((sound, err), db') \<Rightarrow>
          if err = Some ErrNoRows then ((None, None), db')
          else case err of
            Some e \<Rightarrow> ((None, Some (Errorf ''failed to get sound'' e)), db')
          | None \<Rightarrow> ((sound, None), db'))"

text \<open>
  \<^verbatim>\<open>GetSoundsByCategory\<close>. The query's rows are those of the category, latest
  \<^verbatim>\<open>updated_at\<close> first (rows with equal \<^verbatim>\<open>updated_at\<close> in rowid order, which SQL leaves
  open), at most \<open>limit\<close> of them (every row for a negative \<open>limit\<close>, as SQLite reads
  \<^verbatim>\<open>LIMIT\<close>). \<open>scanRows\<close> is the loop \<^verbatim>\<open>for rows.Next() { ... }\<close>: each \<^verbatim>\<open>rows.Next()\<close> is a
  call into the driver, and when it fails the loop ends as it does after the last row;
  the function never looks at \<^verbatim>\<open>rows.Err()\<close>. \<^verbatim>\<open>rows.Scan\<close> of a row without NULLs
  succeeds.
\<close>

fun scanRows :: "Sound list \<Rightarrow> Sound list \<Rightarrow> database \<Rightarrow> Sound list \<times> database" where
  "scanRows [] sounds db = (case driver_call db of (_, db') \<Rightarrow> (sounds, db'))"
| "scanRows (row # rows) sounds db =
     (case driver_call db of
        (Some msg, db') \<Rightarrow> (sounds, db')
      | (None, db') \<Rightarrow> scanRows rows (sounds @ [row]) db')"

definition GetSoundsByCategory ::
  "string \<Rightarrow> int \<Rightarrow> database \<Rightarrow> (Sound list \<times> error option) \<times> database"
where
  "GetSoundsByCategory category limit db =
     (case driver_call db of
        (Some msg, db1) \<Rightarrow>
          (([], Some (Errorf ''failed to get sounds by category'' (Driver msg))), db1)
      | (None, db1) \<Rightarrow>
          let ordered = sort_key (\<lambda>r. - UpdatedAt r)
                          (filter (\<lambda>r. Category r = category) (sounds_table db1));
              rows = (if limit < 0 then ordered else take (nat limit) ordered)
          in case scanRows rows [] db1 of (sounds, db2) \<Rightarrow> ((sounds, None), db2))"

definition UpdateSound :: "Sound \<Rightarrow> database \<Rightarrow> error option \<times> database" where
  "UpdateSound sound db =
     (case driver_call db of
        (Some msg, db1) \<Rightarrow> (Some (Errorf ''failed to update sound'' (Driver msg)), db1)
      | (None, db1) \<Rightarrow>
          (None, db1\<lparr>sounds_table :=
             map (\<lambda>r. if ID r = ID sound
                      then r\<lparr>Title := Title sound, Author := Author sound,
                             UsesCount := UsesCount sound, Category := Category sound,
                             UpdatedAt := UpdatedAt sound\<rparr>
                      else r)
               (sounds_table db1)\<rparr>))"

text \<open>
  \<^verbatim>\<open>SaveSoundHistory\<close>: \<^verbatim>\<open>time.Now()\<close> is an argument of \<^verbatim>\<open>Exec\<close> and is read first. The
  INSERT fails when the driver does, when no sound has the id (the foreign key, with
  \<^verbatim>\<open>PRAGMA foreign_keys = ON\<close>), or when the rowids are used up.
\<close>

definition SaveSoundHistory :: "int64 \<Rightarrow> int64 \<Rightarrow> database \<Rightarrow> error option \<times> database" where
  "SaveSoundHistory soundID usesCount db =
     (case time_Now db of (t, db1) \<Rightarrow>
      case driver_call db1 of
        (Some msg, db2) \<Rightarrow> (Some (Errorf ''failed to save sound history'' (Driver msg)), db2)
      | (None, db2) \<Rightarrow>
          if soundID \<notin> ID ` set (sounds_table db2) then
            (Some (Errorf ''failed to save sound history''
               (Driver ''FOREIGN KEY constraint failed'')), db2)
          else if sound_history_seq db2 = max_int64 then
            (Some (Errorf ''failed to save sound history''
               (Driver ''database or disk is full'')), db2)
          else
            let rowid = sound_history_seq db2 + 1 in
            (None, db2\<lparr>sound_history_table := sound_history_table db2 @
                          [\<lparr>ID_hist = rowid, SoundID = soundID, UsesCount_hist = usesCount,
                            RecordedAt = t\<rparr>],
                        sound_history_seq := rowid\<rparr>))"

text \<open>
  \<^verbatim>\<open>GetSoundHistoryByTime\<close>. \<^verbatim>\<open>time.Duration(hoursAgo) * time.Hour\<close> and its negation are
  \<^verbatim>\<open>int64\<close> arithmetic on nanoseconds, \<^verbatim>\<open>time.Hour\<close> being 3600000000000. The query's rows
  are the snapshots of the sound recorded at or after the cutoff, earliest first (rows with
  equal \<^verbatim>\<open>recorded_at\<close> in rowid order, which SQL leaves open).
\<close>

definition cutoffTime :: "time \<Rightarrow> int64 \<Rightarrow> time" where
  "cutoffTime t hoursAgo = t + sint (- (hoursAgo * 3600000000000))"

definition GetSoundHistoryByTime ::
  "int64 \<Rightarrow> int64 \<Rightarrow> database \<Rightarrow> (SoundHistory option \<times> error option) \<times> database"
where
  "GetSoundHistoryByTime soundID hoursAgo db =
     (case time_Now db of (t, db1) \<Rightarrow>
      case QueryRow_Scan
             (sort_key RecordedAt
                (filter (\<lambda>h. SoundID h = soundID \<and> cutoffTime t hoursAgo \<le> RecordedAt h)
                   (sound_history_table db1))) db1 of
        ((history, err), db2) \<Rightarrow>
          if err = Some ErrNoRows then ((None, None), db2)
          else case err of
            Some e \<Rightarrow> ((None, Some (Errorf ''failed to get sound history'' e)), db2)
          | None \<Rightarrow> ((history, None), db2))"

text \<open>
  A \<^verbatim>\<open>map[int64]*SoundHistory\<close>: a key is absent (\<open>None\<close>), or bound to a pointer that
  is nil (\<open>Some None\<close>) or points to a record.
\<close>

type_synonym historyMap = "int64 \<rightharpoonup> SoundHistory option"

text \<open>
  The loop of \<^verbatim>\<open>GetAllSoundsWithHistory\<close> over the sounds, with the map built so far; it
  stops at the first error.
\<close>

fun loadHistory ::
  "Sound list \<Rightarrow> int64 \<Rightarrow> historyMap \<Rightarrow> database \<Rightarrow> (historyMap \<times> error option) \<times> database"
where
  "loadHistory [] hoursAgo historyMap db = ((historyMap, None), db)"
| "loadHistory (sound # rest) hoursAgo historyMap db =
     (case GetSoundHistoryByTime (ID sound) hoursAgo db of
        ((history, Some err), db1) \<Rightarrow> ((Map.empty, Some err), db1)
      | ((history, None), db1) \<Rightarrow>
          (case history of
             Some h \<Rightarrow> loadHistory rest hoursAgo (historyMap(ID sound \<mapsto> Some h)) db1
           | None \<Rightarrow> loadHistory rest hoursAgo historyMap db1))"

definition GetAllSoundsWithHistory ::
  "string \<Rightarrow> int64 \<Rightarrow> database \<Rightarrow> (Sound list \<times> historyMap \<times> error option) \<times> database"
where
  "GetAllSoundsWithHistory category hoursAgo db =
     (case GetSoundsByCategory category 1000 db of
        ((sounds, Some err), db1) \<Rightarrow> (([], Map.empty, Some err), db1)
      | ((sounds, None), db1) \<Rightarrow>
          (case loadHistory sounds hoursAgo Map.empty db1 of
             ((historyMap, Some err), db2) \<Rightarrow> (([], Map.empty, Some err), db2)
           | ((historyMap, None), db2) \<Rightarrow> ((sounds, historyMap, None), db2)))"

subsection \<open>SaveSoundWithHistory (internal/storage/storage.go)\<close>

text \<open>
  The function returns an \<^verbatim>\<open>error\<close> and changes the struct its argument points to; the
  result is the struct as the call leaves it together with the error. \<^verbatim>\<open>created.ID\<close> on a
  nil \<^verbatim>\<open>created\<close> is a run-time panic.
\<close>

datatype 'a outcome = Returns 'a | Panics

definition SaveSoundWithHistory ::
  "Sound \<Rightarrow> database \<Rightarrow> (Sound \<times> error option) outcome \<times> database"
where
  "SaveSoundWithHistory sound db =
     (case GetSoundByURL (URL sound) db of ((existing, err), db1) \<Rightarrow>
      if err = None \<and> existing \<noteq> None then
        (case time_Now db1 of (t, db2) \<Rightarrow>
         let sound1 = sound\<lparr>ID := ID (the existing), CreatedAt := CreatedAt (the existing),
                            UpdatedAt := t\<rparr>
         in case UpdateSound sound1 db2 of
              (Some e, db3) \<Rightarrow> (Returns (sound1, Some e), db3)
            | (None, db3) \<Rightarrow>
                (case SaveSoundHistory (ID sound1) (UsesCount sound1) db3 of
                   (r, db4) \<Rightarrow> (Returns (sound1, r), db4)))
      else
        (case time_Now db1 of (t1, db2) \<Rightarrow>
         case time_Now db2 of (t2, db3) \<Rightarrow>
         case SaveSound (sound\<lparr>CreatedAt := t1, UpdatedAt := t2\<rparr>) db3 of
           ((sound1, Some e), db4) \<Rightarrow> (Returns (sound1, Some e), db4)
         | ((sound1, None), db4) \<Rightarrow>
             (case GetSoundByURL (URL sound1) db4 of
                ((created, Some e), db5) \<Rightarrow> (Returns (sound1, Some e), db5)
              | ((None, None), db5) \<Rightarrow> (Panics, db5)
              | ((Some c, None), db5) \<Rightarrow>
                  (case SaveSoundHistory (ID c) (UsesCount sound1) db5 of
                     (r, db6) \<Rightarrow> (Returns (sound1\<lparr>ID := ID c\<rparr>, r), db6)))))"

subsection \<open>The collection loop (internal/scheduler/scheduler.go)\<close>

text \<open>
  \<^verbatim>\<open>ManualCollect\<close> and \<^verbatim>\<open>CollectSounds\<close> save the fetched sounds one after the other with
  \<^verbatim>\<open>SaveSoundWithHistory\<close>; an error is logged and the loop goes on. A panic ends it.
\<close>

fun saveSounds :: "Sound list \<Rightarrow> database \<Rightarrow> unit outcome \<times> database" where
  "saveSounds [] db = (Returns (), db)"
| "saveSounds (sound # rest) db =
     (case SaveSoundWithHistory sound db of
        (Panics, db') \<Rightarrow> (Panics, db')
      | (Returns _, db') \<Rightarrow> saveSounds rest db')"

section \<open>The trend detector (internal/detector/detector.go)\<close>

record TrendCriteria =
  MinUsesCount :: int64
  MaxUsesCount :: int64
  MinGrowth :: float64
  LookbackHours :: int64

definition DefaultCriteria :: TrendCriteria where
  "DefaultCriteria =
     \<lparr>MinUsesCount = 500, MaxUsesCount = 30000, MinGrowth = Fin 150, LookbackHours = 24\<rparr>"

definition calculateGrowth :: "int64 \<Rightarrow> int64 \<Rightarrow> float64" where
  "calculateGrowth oldCount newCount =
     (if oldCount = 0 then Fin 0
      else f64_mul (f64_div (f64_of_int64 (newCount - oldCount)) (f64_of_int64 oldCount))
             (Fin 100))"

text \<open>The literal \<^verbatim>\<open>999.9\<close> is the binary64 number nearest to 9999/10.\<close>

definition newSoundMarker :: float64 where
  "newSoundMarker = f64_round (9999 / 10)"

text \<open>
  The loop over \<^verbatim>\<open>sounds\<close> of \<^verbatim>\<open>DetectTrendingWithCriteria\<close>; the last argument is the
  slice \<^verbatim>\<open>trendingSounds\<close> built so far, and every \<^verbatim>\<open>continue\<close> is a recursive call that
  leaves it as it is.
\<close>

fun scanSounds ::
  "TrendCriteria \<Rightarrow> historyMap \<Rightarrow> Sound list \<Rightarrow> TrendingSound list \<Rightarrow> TrendingSound list"
where
  "scanSounds criteria historyMap [] trendingSounds = trendingSounds"
| "scanSounds criteria historyMap (sound # rest) trendingSounds =
     (if UsesCount sound <s MinUsesCount criteria \<or> MaxUsesCount criteria <s UsesCount sound
      then scanSounds criteria historyMap rest trendingSounds
      else case historyMap (ID sound) of
        None \<Rightarrow> scanSounds criteria historyMap rest trendingSounds
      | Some None \<Rightarrow> scanSounds criteria historyMap rest trendingSounds
      | Some (Some history) \<Rightarrow>
          let oldCount = UsesCount_hist history in
          if oldCount = 0 then
            (if MinUsesCount criteria \<le>s UsesCount sound
             then scanSounds criteria historyMap rest
                    (trendingSounds @
                      [\<lparr>Sound = sound, GrowthPercent = newSoundMarker, OldUsesCount = 0\<rparr>])
             else scanSounds criteria historyMap rest trendingSounds)
          else
            let growth = calculateGrowth oldCount (UsesCount sound) in
            if f64_ge growth (MinGrowth criteria)
            then scanSounds criteria historyMap rest
                   (trendingSounds @
                     [\<lparr>Sound = sound, GrowthPercent = growth, OldUsesCount = oldCount\<rparr>])
            else scanSounds criteria historyMap rest trendingSounds)"

text \<open>
  \<^verbatim>\<open>sort.Slice(xs, less)\<close> of the standard library reorders \<open>xs\<close> so that no element is
  \<open>less\<close> than one before it (\<open>lessFn\<close> below is the closure \<^verbatim>\<open>less\<close>). The library
  leaves the order of elements that are not \<open>less\<close> either way open; the model keeps them in their order of arrival, and nothing
  proved below depends on that choice.
\<close>

fun insert_Slice :: "('a \<Rightarrow> 'a \<Rightarrow> bool) \<Rightarrow> 'a \<Rightarrow> 'a list \<Rightarrow> 'a list" where
  "insert_Slice lessFn x [] = [x]"
| "insert_Slice lessFn x (y # ys) =
     (if lessFn y x then y # insert_Slice lessFn x ys else x # y # ys)"

definition sort_Slice :: "('a \<Rightarrow> 'a \<Rightarrow> bool) \<Rightarrow> 'a list \<Rightarrow> 'a list" where
  "sort_Slice lessFn xs = foldr (insert_Slice lessFn) xs []"

definition limitResults :: "int \<Rightarrow> TrendingSound list \<Rightarrow> TrendingSound list" where
  \<comment> \<open>\<^verbatim>\<open>if limit > 0 && len(trendingSounds) > limit { trendingSounds = trendingSounds[:limit] }\<close>\<close>
  "limitResults limit trendingSounds =
     (if 0 < limit \<and> limit < int (length trendingSounds)
      then take (nat limit) trendingSounds else trendingSounds)"

definition rankSounds ::
  "TrendCriteria \<Rightarrow> int \<Rightarrow> Sound list \<Rightarrow> historyMap \<Rightarrow> TrendingSound list"
where
  \<comment> \<open>\<^verbatim>\<open>DetectTrendingWithCriteria\<close> from the loop on: scan, sort, limit\<close>
  "rankSounds criteria limit sounds historyMap =
     limitResults limit
       (sort_Slice (\<lambda>a b. f64_greater (GrowthPercent a) (GrowthPercent b))
          (scanSounds criteria historyMap sounds []))"

definition DetectTrendingWithCriteria ::
  "string \<Rightarrow> int \<Rightarrow> TrendCriteria \<Rightarrow> database \<Rightarrow> (TrendingSound list \<times> error option) \<times> database"
where
  "DetectTrendingWithCriteria category limit criteria db =
     (case GetAllSoundsWithHistory category (LookbackHours criteria) db of
        ((sounds, historyMap, Some err), db') \<Rightarrow>
          (([], Some (Errorf ''failed to get sounds with history'' err)), db')
      | ((sounds, historyMap, None), db') \<Rightarrow>
          ((rankSounds criteria limit sounds historyMap, None), db'))"

definition DetectTrending ::
  "string \<Rightarrow> int \<Rightarrow> database \<Rightarrow> (TrendingSound list \<times> error option) \<times> database"
where
  "DetectTrending category limit db =
     DetectTrendingWithCriteria category limit DefaultCriteria db"

section \<open>An example database\<close>

text \<open>
  Three sounds of one category, observed at hour 100 (in nanoseconds): the first grew
  from 1000 uses to 2600 within the last 24 hours, the second has a baseline of 0 uses,
  the third has no snapshot inside the window.
\<close>

definition exampleDB :: database where
  "exampleDB =
     \<lparr>sounds_table =
        [\<lparr>ID = 1, Title = ''T1'', Author = ''A1'', URL = ''u1'', UsesCount = 2600,
          Category = ''tech'', CreatedAt = 0, UpdatedAt = 300\<rparr>,
         \<lparr>ID = 2, Title = ''T2'', Author = ''A2'', URL = ''u2'', UsesCount = 5000,
          Category = ''tech'', CreatedAt = 0, UpdatedAt = 200\<rparr>,
         \<lparr>ID = 3, Title = ''T3'', Author = ''A3'', URL = ''u3'', UsesCount = 5000,
          Category = ''tech'', CreatedAt = 0, UpdatedAt = 100\<rparr>],
      sounds_seq = 3,
      sound_history_table =
        [\<lparr>ID_hist = 1, SoundID = 1, UsesCount_hist = 1000, RecordedAt = 288000000000000\<rparr>,
         \<lparr>ID_hist = 2, SoundID = 2, UsesCount_hist = 0, RecordedAt = 288000000000000\<rparr>,
         \<lparr>ID_hist = 3, SoundID = 3, UsesCount_hist = 100, RecordedAt = 0\<rparr>,
         \<lparr>ID_hist = 4, SoundID = 1, UsesCount_hist = 2600, RecordedAt = 360000000000000\<rparr>],
      sound_history_seq = 4,
      faults = [],
      now = 360000000000000,
      ticks = []\<rparr>"

definition exampleSounds :: "Sound list" where
  "exampleSounds = 
        [\<lparr>ID = 1, Title = ''T1'', Author = ''A1'', URL = ''u1'', UsesCount = 2600,
          Category = ''tech'', CreatedAt = 0, UpdatedAt = 300\<rparr>,
         \<lparr>ID = 2, Title = ''T2'', Author = ''A2'', URL = ''u2'', UsesCount = 5000,
          Category = ''tech'', CreatedAt = 0, UpdatedAt = 200\<rparr>,
         \<lparr>ID = 3, Title = ''T3'', Author = ''A3'', URL = ''u3'', UsesCount = 5000,
          Category = ''tech'', CreatedAt = 0, UpdatedAt = 100\<rparr>]"

definition exampleMap :: historyMap where
  "exampleMap = [1 \<mapsto> Some \<lparr>ID_hist = 1, SoundID = 1, UsesCount_hist = 1000, RecordedAt = 288000000000000\<rparr>,
                 2 \<mapsto> Some \<lparr>ID_hist = 2, SoundID = 2, UsesCount_hist = 0, RecordedAt = 288000000000000\<rparr>]"

text \<open>
  Two observations for the example, of an url that has its item and of a new url, and
  the example database with a driver whose next call fails.
\<close>

definition knownObservation :: Sound where
  "knownObservation =
     \<lparr>ID = 0, Title = ''T1'', Author = ''A1'', URL = ''u1'', UsesCount = 2700,
      Category = ''tech'', CreatedAt = 0, UpdatedAt = 0\<rparr>"

definition newObservation :: Sound where
  "newObservation =
     \<lparr>ID = 0, Title = ''T4'', Author = ''A4'', URL = ''u4'', UsesCount = 700,
      Category = ''tech'', CreatedAt = 0, UpdatedAt = 0\<rparr>"

definition faultyDB :: database where
  "faultyDB = exampleDB\<lparr>faults := [Some ''disk I/O error'']\<rparr>"

text \<open>
  The example database with a driver that fails at its seventh call: the query for the
  sounds and the lookup for the first sound go through, the lookup for the second fails.
\<close>

definition lateFaultDB :: database where
  "lateFaultDB =
     exampleDB\<lparr>faults := [None, None, None, None, None, None, Some ''disk I/O error'']\<rparr>"

section \<open>Rounding to binary64\<close>

lemma round_even_err: "\<bar>of_int (round_even r) - r\<bar> \<le> 1 / 2"
  unfolding round_even_def Let_def by (auto simp: abs_if) linarith+

lemma int_pow2_bounds:
  fixes n :: int assumes "0 < n"
  shows "(2::rat) powi (bitlen n - 1) \<le> of_int n" "of_int n + 1 \<le> (2::rat) powi (bitlen n)"
proof -
  have b: "2 ^ nat (bitlen n - 1) \<le> n" "n < 2 ^ nat (bitlen n)"
    using bitlen_bounds[OF assms] by auto
  have ge1: "1 \<le> bitlen n" using assms by (simp add: bitlen_alt_def)
  have "(of_int (2 ^ nat (bitlen n - 1)) :: rat) \<le> of_int n" using b(1) by (simp only: of_int_le_iff)
  then show "(2::rat) powi (bitlen n - 1) \<le> of_int n"
    using ge1 by (simp add: power_int_def)
  have "n + 1 \<le> 2 ^ nat (bitlen n)" using b(2) by simp
  then have "(of_int (n + 1) :: rat) \<le> of_int (2 ^ nat (bitlen n))" by (simp only: of_int_le_iff)
  then show "of_int n + 1 \<le> (2::rat) powi (bitlen n)"
    using ge1 by (simp add: power_int_def)
qed

lemma ilog2_lower:
  assumes "x \<noteq> 0"
  shows "(2::rat) powi (ilog2 x) \<le> \<bar>x\<bar>"
proof (cases "1 \<le> \<bar>x\<bar>")
  case True
  then have "0 < \<lfloor>\<bar>x\<bar>\<rfloor>" by linarith
  from int_pow2_bounds(1)[OF this] have "2 powi (bitlen \<lfloor>\<bar>x\<bar>\<rfloor> - 1) \<le> (of_int \<lfloor>\<bar>x\<bar>\<rfloor> :: rat)" .
  also have "\<dots> \<le> \<bar>x\<bar>" by linarith
  finally show ?thesis using True by (simp add: ilog2_def)
next
  case False
  define y where "y = 1 / \<bar>x\<bar>"
  have y1: "1 < y" using False assms by (simp add: y_def)
  define m where "m = \<lceil>y\<rceil> - 1"
  have m0: "0 < m" using y1 unfolding m_def by linarith
  have "y \<le> of_int m + 1" unfolding m_def by linarith
  also have "\<dots> \<le> 2 powi (bitlen m)" using int_pow2_bounds(2)[OF m0] .
  finally have "y \<le> 2 powi (bitlen m)" .
  then have "1 / 2 powi (bitlen m) \<le> \<bar>x\<bar>"
    using assms unfolding y_def by (simp add: field_simps)
  then show ?thesis using False unfolding ilog2_def m_def y_def
    by (simp add: power_int_minus_divide)
qed

lemma ilog2_upper:
  assumes "x \<noteq> 0"
  shows "\<bar>x\<bar> < (2::rat) powi (ilog2 x + 1)"
proof (cases "1 \<le> \<bar>x\<bar>")
  case True
  then have "0 < \<lfloor>\<bar>x\<bar>\<rfloor>" by linarith
  from int_pow2_bounds(2)[OF this] have "(of_int \<lfloor>\<bar>x\<bar>\<rfloor> :: rat) + 1 \<le> 2 powi (bitlen \<lfloor>\<bar>x\<bar>\<rfloor>)" .
  moreover have "\<bar>x\<bar> < of_int \<lfloor>\<bar>x\<bar>\<rfloor> + 1" by linarith
  ultimately show ?thesis using True by (simp add: ilog2_def)
next
  case False
  define y where "y = 1 / \<bar>x\<bar>"
  have y1: "1 < y" using False assms by (simp add: y_def)
  define m where "m = \<lceil>y\<rceil> - 1"
  have m0: "0 < m" using y1 unfolding m_def by linarith
  have "2 powi (bitlen m - 1) \<le> (of_int m :: rat)" using int_pow2_bounds(1)[OF m0] .
  also have "\<dots> < y" unfolding m_def by linarith
  finally have "2 powi (bitlen m - 1) < y" .
  then have "\<bar>x\<bar> < 1 / 2 powi (bitlen m - 1)"
    using assms unfolding y_def by (simp add: field_simps)
  also have "\<dots> = 2 powi (- bitlen m + 1)"
    by (simp add: power_int_minus_divide[symmetric])
  finally show ?thesis using False unfolding ilog2_def m_def y_def by simp
qed

lemma pow2_less_iff: "(2::rat) powi a < 2 powi b \<longleftrightarrow> a < b"
  by (metis linorder_not_less one_less_numeral_iff order_less_imp_le order_less_le
      power_int_increasing power_int_strict_increasing semiring_norm(76))

lemma pow2_le_iff: "(2::rat) powi a \<le> 2 powi b \<longleftrightarrow> a \<le> b"
  using pow2_less_iff[of b a] by (auto simp: not_less[symmetric])

text \<open>The significand has at most 53 bits, and exactly 53 for a normal number.\<close>

lemma significand_upper:
  assumes "x \<noteq> 0" "ilog2 x - 52 \<le> e"
  shows "\<bar>round_even (x / (2::rat) powi e)\<bar> \<le> 2 ^ 53"
proof -
  define m where "m = round_even (x / (2::rat) powi e)"
  have err: "\<bar>of_int m - x / (2::rat) powi e\<bar> \<le> 1 / 2"
    unfolding m_def by (rule round_even_err)
  have pos: "0 < (2::rat) powi e" by simp
  have "\<bar>x\<bar> < (2::rat) powi (ilog2 x + 1)" by (rule ilog2_upper[OF assms(1)])
  also have "\<dots> \<le> 2 powi (e + 53)" unfolding pow2_le_iff using assms(2) by simp
  also have "\<dots> = 2 powi e * 2 ^ 53" by (simp add: power_int_add)
  finally have "\<bar>x\<bar> / 2 powi e < 2 ^ 53" using pos by (simp add: field_simps)
  then have "\<bar>x / 2 powi e\<bar> < 2 ^ 53" by simp
  with err have "\<bar>(of_int m :: rat)\<bar> < 2 ^ 53 + 1" by linarith
  then have "(of_int \<bar>m\<bar> :: rat) < of_int (2 ^ 53 + 1)" by simp
  then have "\<bar>m\<bar> < 2 ^ 53 + 1" by (simp only: of_int_less_iff)
  then show ?thesis unfolding m_def by simp
qed

lemma significand_lower:
  assumes "x \<noteq> 0"
  shows "2 ^ 52 \<le> \<bar>round_even (x / (2::rat) powi (ilog2 x - 52))\<bar>"
proof -
  define e where "e = ilog2 x - 52"
  define m where "m = round_even (x / (2::rat) powi e)"
  have err: "\<bar>of_int m - x / (2::rat) powi e\<bar> \<le> 1 / 2"
    unfolding m_def by (rule round_even_err)
  have pos: "0 < (2::rat) powi e" by simp
  have "(2::rat) powi e * 2 ^ 52 = 2 powi (ilog2 x)" unfolding e_def by (simp add: power_int_diff)
  also have "\<dots> \<le> \<bar>x\<bar>" by (rule ilog2_lower[OF assms])
  finally have "2 ^ 52 \<le> \<bar>x\<bar> / 2 powi e" using pos by (simp add: field_simps)
  then have "2 ^ 52 \<le> \<bar>x / 2 powi e\<bar>" by simp
  with err have "2 ^ 52 - 1 < \<bar>(of_int m :: rat)\<bar>" by linarith
  then have "(of_int (2 ^ 52 - 1) :: rat) < of_int \<bar>m\<bar>" by simp
  then have "2 ^ 52 - 1 < \<bar>m\<bar>" by (simp only: of_int_less_iff)
  then show ?thesis unfolding m_def e_def by simp
qed

lemma scaled_upper:
  assumes "x \<noteq> 0" "ilog2 x - 52 \<le> e"
  shows "\<bar>of_int (round_even (x / (2::rat) powi e)) * (2::rat) powi e\<bar> \<le> 2 powi (e + 53)"
proof -
  define m where "m = round_even (x / (2::rat) powi e)"
  have "\<bar>m\<bar> \<le> 2 ^ 53" unfolding m_def by (rule significand_upper[OF assms])
  then have "(of_int \<bar>m\<bar> :: rat) \<le> of_int (2 ^ 53)" by (simp only: of_int_le_iff)
  then have "\<bar>(of_int m :: rat)\<bar> \<le> 2 ^ 53" by simp
  then have "\<bar>(of_int m :: rat)\<bar> * 2 powi e \<le> 2 ^ 53 * 2 powi e"
    by (intro mult_right_mono) auto
  then show ?thesis unfolding m_def[symmetric] by (simp add: abs_mult power_int_add)
qed

lemma scaled_lower:
  assumes "x \<noteq> 0"
  shows "(2::rat) powi (ilog2 x) \<le>
    \<bar>of_int (round_even (x / (2::rat) powi (ilog2 x - 52))) * (2::rat) powi (ilog2 x - 52)\<bar>"
proof -
  define e where "e = ilog2 x - 52"
  define m where "m = round_even (x / (2::rat) powi e)"
  have "2 ^ 52 \<le> \<bar>m\<bar>" unfolding m_def e_def by (rule significand_lower[OF assms])
  then have "(of_int (2 ^ 52) :: rat) \<le> of_int \<bar>m\<bar>" by (simp only: of_int_le_iff)
  then have "2 ^ 52 \<le> \<bar>(of_int m :: rat)\<bar>" by simp
  then have "2 ^ 52 * (2::rat) powi e \<le> \<bar>(of_int m :: rat)\<bar> * 2 powi e"
    by (intro mult_right_mono) auto
  moreover have "(2::rat) powi (ilog2 x) = 2 ^ 52 * 2 powi e"
    unfolding e_def by (simp add: power_int_diff)
  ultimately show ?thesis unfolding m_def[symmetric] e_def[symmetric] by (simp add: abs_mult)
qed

text \<open>The shape of a finite rounding result.\<close>

lemma f64_round_shape:
  assumes "f64_round x = Fin v" "x \<noteq> 0"
  defines "e \<equiv> max (ilog2 x - 52) (- 1074)"
  shows "v = of_int (round_even (x / (2::rat) powi e)) * (2::rat) powi e"
  using assms(1,2) unfolding f64_round_def e_def Let_def by (simp split: if_splits)

lemma f64_round_magnitude:
  assumes "f64_round x = Fin v" "x \<noteq> 0"
  shows "\<bar>v\<bar> \<le> (2::rat) powi (max (ilog2 x - 52) (- 1074) + 53)"
  unfolding f64_round_shape[OF assms] by (rule scaled_upper[OF assms(2)]) simp

text \<open>A finite result above \<open>2 powi k\<close> in magnitude is a multiple of \<open>2 powi (k - 52)\<close>.\<close>

lemma f64_round_grid:
  assumes "f64_round x = Fin v" "(2::rat) powi k < \<bar>v\<bar>"
  shows "\<exists>n::int. v = of_int n * (2::rat) powi (k - 52)"
proof -
  have "0 < (2::rat) powi k" by simp
  with assms(2) have "v \<noteq> 0" by linarith
  then have x0: "x \<noteq> 0" using assms(1) by (auto simp: f64_round_def)
  define e where "e = max (ilog2 x - 52) (- 1074)"
  define m where "m = round_even (x / (2::rat) powi e)"
  have v: "v = of_int m * (2::rat) powi e"
    using f64_round_shape[OF assms(1) x0] unfolding e_def m_def by auto
  have "(2::rat) powi k < 2 powi (e + 53)"
    using assms(2) f64_round_magnitude[OF assms(1) x0] unfolding e_def by linarith
  then have ke: "k - 52 \<le> e" unfolding pow2_less_iff by simp
  define d where "d = nat (e - (k - 52))"
  have "(2::rat) powi e = 2 powi (int d + (k - 52))" using ke by (simp add: d_def)
  also have "\<dots> = of_int (2 ^ d) * 2 powi (k - 52)" by (simp add: power_int_add)
  finally have "v = of_int (m * 2 ^ d) * (2::rat) powi (k - 52)" unfolding v by simp
  then show ?thesis by blast
qed

text \<open>A finite result in the binade of \<open>2 powi k\<close> is within half a unit in the last place.\<close>

lemma f64_round_error:
  assumes "f64_round x = Fin v" "(2::rat) powi k \<le> \<bar>v\<bar>" "\<bar>v\<bar> < (2::rat) powi (k + 1)"
    and "- 1022 \<le> k"
  shows "\<bar>v - x\<bar> \<le> (2::rat) powi (k - 53)"
proof -
  have "0 < (2::rat) powi k" by simp
  with assms(2) have "v \<noteq> 0" by linarith
  then have x0: "x \<noteq> 0" using assms(1) by (auto simp: f64_round_def)
  define e where "e = max (ilog2 x - 52) (- 1074)"
  define m where "m = round_even (x / (2::rat) powi e)"
  have v: "v = of_int m * (2::rat) powi e"
    using f64_round_shape[OF assms(1) x0] unfolding e_def m_def by auto
  have err: "\<bar>of_int m - x / (2::rat) powi e\<bar> \<le> 1 / 2"
    unfolding m_def by (rule round_even_err)
  have pos: "0 < (2::rat) powi e" by simp
  have ek: "e \<le> k - 52"
  proof (cases "- 1074 \<le> ilog2 x - 52")
    case True
    then have e: "e = ilog2 x - 52" unfolding e_def by simp
    have "(2::rat) powi (ilog2 x) \<le> \<bar>v\<bar>"
      unfolding v m_def e by (rule scaled_lower[OF x0])
    then have "(2::rat) powi (e + 52) \<le> \<bar>v\<bar>" unfolding e by simp
    with assms(3) have "(2::rat) powi (e + 52) < 2 powi (k + 1)" by linarith
    then show ?thesis unfolding pow2_less_iff by simp
  next
    case False
    then show ?thesis using assms(4) unfolding e_def by simp
  qed
  have "v - x = (of_int m - x / 2 powi e) * 2 powi e" unfolding v using pos by (simp add: field_simps)
  then have "\<bar>v - x\<bar> = \<bar>of_int m - x / 2 powi e\<bar> * 2 powi e" by (simp add: abs_mult)
  also have "\<dots> \<le> 1 / 2 * 2 powi e" using err by (intro mult_right_mono) auto
  also have "\<dots> = 2 powi (e - 1)" by (simp add: power_int_diff)
  also have "\<dots> \<le> 2 powi (k - 53)" unfolding pow2_le_iff using ek by simp
  finally show ?thesis .
qed

lemma newSoundMarker_eq: "newSoundMarker = Fin (8795213412905779 / 8796093022208)"
  unfolding newSoundMarker_def by code_simp

text \<open>No binary64 number times 100 rounds to the marker.\<close>

lemma times_100_not_marker:
  assumes "f64_round z = Fin q"
  shows "f64_round (q * 100) \<noteq> newSoundMarker"
proof
  define D :: rat where "D = 8795213412905779 / 8796093022208"
  assume "f64_round (q * 100) = newSoundMarker"
  then have r: "f64_round (q * 100) = Fin D" by (simp add: newSoundMarker_eq D_def)
  have "\<bar>D - q * 100\<bar> \<le> (2::rat) powi (9 - 53)"
    by (rule f64_round_error[OF r]) (simp_all add: D_def)
  then have near: "\<bar>D - q * 100\<bar> \<le> 1 / 2 ^ 44" by (simp add: power_int_minus_divide)
  then have "(2::rat) powi 3 < \<bar>q\<bar>" unfolding D_def by (simp add: abs_if split: if_splits)
  from f64_round_grid[OF assms this] obtain n :: int where "q = of_int n * (2::rat) powi (3 - 52)"
    by blast
  then have q: "q = of_int n / 2 ^ 49" by (simp add: power_int_minus_divide)
  have "D * 2 ^ 49 - q * 100 * 2 ^ 49 = (D - q * 100) * 2 ^ 49" by (simp add: algebra_simps)
  then have "\<bar>D * 2 ^ 49 - q * 100 * 2 ^ 49\<bar> = \<bar>D - q * 100\<bar> * 2 ^ 49"
    by (simp only: abs_mult) simp
  also have "\<dots> \<le> 1 / 2 ^ 44 * 2 ^ 49" using near by (intro mult_right_mono) auto
  finally have "\<bar>D * 2 ^ 49 - q * 100 * 2 ^ 49\<bar> \<le> 32" by simp
  then have "\<bar>(562893658425969856 :: rat) - of_int n * 100\<bar> \<le> 32"
    unfolding q D_def by simp
  then have "\<bar>(of_int (562893658425969856 - n * 100) :: rat)\<bar> \<le> of_int 32" by simp
  then have "\<bar>562893658425969856 - n * 100\<bar> \<le> (32::int)"
    by (simp only: of_int_abs[symmetric] of_int_le_iff)
  then show False by presburger
qed



text \<open>Rounding neither overflows nor vanishes on the magnitudes of this program.\<close>

lemma f64_round_finite:
  assumes "\<bar>x\<bar> \<le> (2::rat) powi k" "- 1022 \<le> k" "k < 1023"
  shows "\<exists>v. f64_round x = Fin v \<and> \<bar>v\<bar> \<le> (2::rat) powi (k + 1)"
proof (cases "x = 0")
  case True
  then show ?thesis by (simp add: f64_round_def)
next
  case False
  define e where "e = max (ilog2 x - 52) (- 1074)"
  define v where "v = of_int (round_even (x / (2::rat) powi e)) * (2::rat) powi e"
  have "(2::rat) powi (ilog2 x) \<le> 2 powi k"
    using ilog2_lower[OF False] assms(1) by linarith
  then have ik: "ilog2 x \<le> k" unfolding pow2_le_iff .
  have "\<bar>v\<bar> \<le> 2 powi (e + 53)" unfolding v_def by (rule scaled_upper[OF False]) (simp add: e_def)
  also have "\<dots> \<le> 2 powi (k + 1)" unfolding pow2_le_iff e_def using ik assms(2) by simp
  finally have bound: "\<bar>v\<bar> \<le> 2 powi (k + 1)" .
  have "(2::rat) powi (k + 1) < 2 powi 1024" unfolding pow2_less_iff using assms(3) by simp
  with bound have "\<bar>v\<bar> < 2 ^ 1024" by simp
  then have "f64_round x = Fin v"
    using False unfolding f64_round_def Let_def e_def[symmetric] v_def[symmetric] by simp
  with bound show ?thesis by blast
qed

lemma f64_round_lower:
  assumes "f64_round x = Fin v" "(2::rat) powi k \<le> \<bar>x\<bar>" "- 1022 \<le> k"
  shows "(2::rat) powi k \<le> \<bar>v\<bar>"
proof -
  have "0 < (2::rat) powi k" by simp
  with assms(2) have x0: "x \<noteq> 0" by linarith
  have "(2::rat) powi k < 2 powi (ilog2 x + 1)"
    using ilog2_upper[OF x0] assms(2) by linarith
  then have ki: "k \<le> ilog2 x" unfolding pow2_less_iff by simp
  then have e: "max (ilog2 x - 52) (- 1074) = ilog2 x - 52" using assms(3) by simp
  have "(2::rat) powi k \<le> 2 powi (ilog2 x)" unfolding pow2_le_iff by (rule ki)
  also have "\<dots> \<le> \<bar>v\<bar>"
    using scaled_lower[OF x0] f64_round_shape[OF assms(1) x0] unfolding e by simp
  finally show ?thesis .
qed

text \<open>Converting an \<^verbatim>\<open>int64\<close> gives a finite number, zero only for zero.\<close>

lemma f64_of_int64_finite: "\<exists>a. f64_of_int64 n = Fin a \<and> \<bar>a\<bar> \<le> 2 ^ 64"
proof -
  have "- (2 ^ 63) \<le> sint n" "sint n < 2 ^ 63"
    using sint_ge[of n] sint_lt[of n] by simp_all
  then have "\<bar>sint n\<bar> \<le> 2 ^ 63" by linarith
  then have "(of_int \<bar>sint n\<bar> :: rat) \<le> of_int (2 ^ 63)" by (simp only: of_int_le_iff)
  then have "\<bar>(of_int (sint n) :: rat)\<bar> \<le> 2 powi 63" by simp
  from f64_round_finite[OF this] show ?thesis unfolding f64_of_int64_def by simp
qed

lemma f64_of_int64_nonzero:
  assumes "n \<noteq> 0" "f64_of_int64 n = Fin b"
  shows "1 \<le> \<bar>b\<bar>"
proof -
  have "sint n \<noteq> 0" using assms(1) by (simp add: signed_eq_0_iff)
  then have "1 \<le> \<bar>sint n\<bar>" by linarith
  then have "(of_int 1 :: rat) \<le> of_int \<bar>sint n\<bar>" by (simp only: of_int_le_iff)
  then have "(2::rat) powi 0 \<le> \<bar>of_int (sint n)\<bar>" by simp
  from f64_round_lower[OF assms(2)[unfolded f64_of_int64_def] this] show ?thesis by simp
qed

lemma calculateGrowth_finite: "\<exists>g. calculateGrowth oldCount newCount = Fin g"
proof (cases "oldCount = 0")
  case True
  then show ?thesis by (simp add: calculateGrowth_def)
next
  case False
  obtain a where a: "f64_of_int64 (newCount - oldCount) = Fin a" "\<bar>a\<bar> \<le> 2 ^ 64"
    using f64_of_int64_finite by blast
  obtain b where b: "f64_of_int64 oldCount = Fin b"
    using f64_of_int64_finite by blast
  have b1: "1 \<le> \<bar>b\<bar>" by (rule f64_of_int64_nonzero[OF False b])
  then have b0: "b \<noteq> 0" by auto
  have "\<bar>a / b\<bar> = \<bar>a\<bar> / \<bar>b\<bar>" by simp
  also have "\<dots> \<le> \<bar>a\<bar> / 1" using b1 by (intro divide_left_mono) auto
  finally have "\<bar>a / b\<bar> \<le> 2 powi 64" using a(2) by simp
  from f64_round_finite[OF this] obtain q where q: "f64_round (a / b) = Fin q" "\<bar>q\<bar> \<le> 2 powi 65"
    by auto
  have "\<bar>q * 100\<bar> = \<bar>q\<bar> * 100" by (simp add: abs_mult)
  also have "\<dots> \<le> 2 powi 65 * 128" using q(2) by simp
  also have "\<dots> = 2 powi 72" by simp
  finally have "\<bar>q * 100\<bar> \<le> 2 powi 72" .
  from f64_round_finite[OF this] obtain g where "f64_round (q * 100) = Fin g" by auto
  then show ?thesis using False a(1) b b0 q(1) by (simp add: calculateGrowth_def)
qed

lemma calculateGrowth_not_marker:
  assumes "oldCount \<noteq> 0"
  shows "calculateGrowth oldCount newCount \<noteq> newSoundMarker"
proof -
  obtain a where a: "f64_of_int64 (newCount - oldCount) = Fin a"
    using f64_of_int64_finite by blast
  obtain b where b: "f64_of_int64 oldCount = Fin b"
    using f64_of_int64_finite by blast
  have "b \<noteq> 0" using f64_of_int64_nonzero[OF assms b] by auto
  then have d: "f64_div (Fin a) (Fin b) = f64_round (a / b)" by simp
  show ?thesis
  proof (cases "f64_round (a / b)")
    case (Fin q)
    then show ?thesis
      using times_100_not_marker[OF Fin] assms a b d by (simp add: calculateGrowth_def)
  qed (use assms a b d in \<open>simp_all add: calculateGrowth_def newSoundMarker_eq\<close>)
qed


section \<open>calculateGrowth\<close>

text \<open>
  C10: \<open>calculateGrowth\<close> returns a finite number for every pair of arguments, so it never
  divides by zero (a \<^verbatim>\<open>float64\<close> division by zero gives an infinity or a NaN). With
  \<open>oldCount = 0\<close> it returns 0 at once; otherwise both conversions are finite, the divisor
  is not zero, and the result is the rounded quotient times 100.
\<close>

theorem calculateGrowth_guarded:
  "calculateGrowth 0 newCount = Fin 0 \<and>
   (\<exists>g. calculateGrowth oldCount newCount = Fin g) \<and>
   (oldCount \<noteq> 0 \<longrightarrow>
      (\<exists>a b. f64_of_int64 (newCount - oldCount) = Fin a \<and> f64_of_int64 oldCount = Fin b \<and>
             b \<noteq> 0 \<and>
             calculateGrowth oldCount newCount = f64_mul (f64_round (a / b)) (Fin 100)))"
proof (intro conjI impI)
  show "calculateGrowth 0 newCount = Fin 0" by (simp add: calculateGrowth_def)
  show "\<exists>g. calculateGrowth oldCount newCount = Fin g" by (rule calculateGrowth_finite)
next
  assume nz: "oldCount \<noteq> 0"
  obtain a where a: "f64_of_int64 (newCount - oldCount) = Fin a"
    using f64_of_int64_finite by blast
  obtain b where b: "f64_of_int64 oldCount = Fin b"
    using f64_of_int64_finite by blast
  have b0: "b \<noteq> 0" using f64_of_int64_nonzero[OF nz b] by auto
  then have "calculateGrowth oldCount newCount = f64_mul (f64_round (a / b)) (Fin 100)"
    using nz a b by (simp add: calculateGrowth_def)
  with a b b0
  show "\<exists>a b. f64_of_int64 (newCount - oldCount) = Fin a \<and> f64_of_int64 oldCount = Fin b \<and>
             b \<noteq> 0 \<and>
             calculateGrowth oldCount newCount = f64_mul (f64_round (a / b)) (Fin 100)"
    by blast
qed

lemma f64_of_int64_1000: "f64_of_int64 1000 = Fin 1000"
  unfolding f64_of_int64_def by code_simp

lemma f64_of_int64_1600: "f64_of_int64 1600 = Fin 1600"
  unfolding f64_of_int64_def by code_simp

lemma f64_round_8_5: "f64_round (8 / 5) = Fin (3602879701896397 / 2251799813685248)"
  by code_simp

lemma f64_round_160: "f64_round (90071992547409925 / 562949953421312) = Fin 160"
  by code_simp

text \<open>The scenario of the specification: from 1000 uses to 2600 is a growth of 160.\<close>

lemma calculateGrowth_1000_2600: "calculateGrowth 1000 2600 = Fin 160"
  by (simp add: calculateGrowth_def f64_of_int64_1000 f64_of_int64_1600 f64_round_8_5
      f64_round_160)

theorem calculateGrowth_guarded_witness:
  "(1000 :: int64) \<noteq> 0 \<and> calculateGrowth 0 2600 = Fin 0 \<and>
   calculateGrowth 1000 2600 = Fin 160 \<and>
   (\<exists>a b. f64_of_int64 (2600 - 1000) = Fin a \<and> f64_of_int64 1000 = Fin b \<and> b \<noteq> 0 \<and>
          calculateGrowth 1000 2600 = f64_mul (f64_round (a / b)) (Fin 100))"
  using calculateGrowth_guarded[of 2600 1000] calculateGrowth_1000_2600 by simp

text \<open>
  In exact arithmetic a growth from 1000 uses to 10999 is 999.9 percent; the \<^verbatim>\<open>float64\<close>
  computation gives the next binary64 number above the marker.
\<close>

lemma f64_of_int64_9999: "f64_of_int64 9999 = Fin 9999"
  unfolding f64_of_int64_def by code_simp

lemma f64_round_9999_1000:
  "f64_round (9999 / 1000) = Fin (5628936584259699 / 562949953421312)"
  by code_simp

lemma f64_round_above_marker:
  "f64_round (140723414606492475 / 140737488355328) = Fin (2198803353226445 / 2199023255552)"
  by code_simp

lemma calculateGrowth_1000_10999:
  "calculateGrowth 1000 10999 = Fin (2198803353226445 / 2199023255552)"
  by (simp add: calculateGrowth_def f64_of_int64_1000 f64_of_int64_9999 f64_round_9999_1000
      f64_round_above_marker)

text \<open>
  With a positive baseline and a current count that is not negative, the \<^verbatim>\<open>int64\<close>
  subtraction of \<open>calculateGrowth\<close> does not wrap.
\<close>

lemma int64_difference_exact:
  fixes oldCount newCount :: int64
  assumes "0 <s oldCount" "0 \<le>s newCount"
  shows "sint (newCount - oldCount) = sint newCount - sint oldCount"
proof -
  have "0 < sint oldCount" "0 \<le> sint newCount"
    using assms by (simp_all add: word_sless_alt word_sle_eq)
  moreover have "sint oldCount < 2 ^ 63" "sint newCount < 2 ^ 63"
    using sint_lt[of oldCount] sint_lt[of newCount] by simp_all
  ultimately show ?thesis
    by (simp add: sint_word_ariths signed_take_bit_int_eq_self)
qed

section \<open>The loop, the sort and the limit\<close>

lemma scanSounds_append:
  "scanSounds criteria historyMap xs (acc @ acc') = acc @ scanSounds criteria historyMap xs acc'"
  by (induction xs arbitrary: acc') (simp_all add: Let_def split: option.split)

lemma scanSounds_acc:
  "scanSounds criteria historyMap xs acc = acc @ scanSounds criteria historyMap xs []"
  using scanSounds_append[of criteria historyMap xs acc "[]"] by simp

lemma scanSounds_Cons:
  "scanSounds criteria historyMap (sound # rest) [] =
     scanSounds criteria historyMap [sound] [] @ scanSounds criteria historyMap rest []"
  using scanSounds_acc[of criteria historyMap rest "[_]"]
  by (simp add: Let_def split: option.split)

lemma scanSounds_elem:
  assumes "r \<in> set (scanSounds criteria historyMap xs [])"
  shows "\<exists>sound history. sound \<in> set xs \<and> Sound r = sound \<and>
           MinUsesCount criteria \<le>s UsesCount sound \<and>
           UsesCount sound \<le>s MaxUsesCount criteria \<and>
           historyMap (ID sound) = Some (Some history) \<and>
           OldUsesCount r = UsesCount_hist history \<and>
           GrowthPercent r =
             (if UsesCount_hist history = 0 then newSoundMarker
              else calculateGrowth (UsesCount_hist history) (UsesCount sound)) \<and>
           (UsesCount_hist history \<noteq> 0 \<longrightarrow> f64_ge (GrowthPercent r) (MinGrowth criteria))"
  using assms
proof (induction xs)
  case Nil
  then show ?case by simp
next
  case (Cons x xs)
  from Cons.prems consider
    (here) "r \<in> set (scanSounds criteria historyMap [x] [])"
    | (later) "r \<in> set (scanSounds criteria historyMap xs [])"
    unfolding scanSounds_Cons[of criteria historyMap x xs] by auto
  then show ?case
  proof cases
    case here
    then show ?thesis
      by (auto simp: Let_def signed.not_less split: if_splits option.splits)
  next
    case later
    from Cons.IH[OF this] show ?thesis by auto
  qed
qed

lemma scanSounds_new:
  assumes "sound \<in> set xs" "MinUsesCount criteria \<le>s UsesCount sound"
    "UsesCount sound \<le>s MaxUsesCount criteria"
    "historyMap (ID sound) = Some (Some history)" "UsesCount_hist history = 0"
  shows "\<lparr>Sound = sound, GrowthPercent = newSoundMarker, OldUsesCount = 0\<rparr>
           \<in> set (scanSounds criteria historyMap xs [])"
  using assms(1)
proof (induction xs)
  case Nil
  then show ?case by simp
next
  case (Cons x xs)
  show ?case
  proof (cases "x = sound")
    case True
    have "scanSounds criteria historyMap [x] [] =
            [\<lparr>Sound = sound, GrowthPercent = newSoundMarker, OldUsesCount = 0\<rparr>]"
      using assms(2-5) True by (simp add: signed.not_less[symmetric])
    then show ?thesis unfolding scanSounds_Cons[of criteria historyMap x xs] by simp
  next
    case False
    with Cons show ?thesis unfolding scanSounds_Cons[of criteria historyMap x xs] by simp
  qed
qed


lemma scanSounds_finite_growth:
  assumes "r \<in> set (scanSounds criteria historyMap xs [])"
  shows "\<exists>g. GrowthPercent r = Fin g"
  using scanSounds_elem[OF assms] calculateGrowth_finite newSoundMarker_eq by auto

lemma mset_insert_Slice: "mset (insert_Slice lessFn x ys) = add_mset x (mset ys)"
  by (induction ys) simp_all

lemma mset_sort_Slice: "mset (sort_Slice lessFn xs) = mset xs"
  unfolding sort_Slice_def by (induction xs) (simp_all add: mset_insert_Slice)

lemma set_sort_Slice: "set (sort_Slice lessFn xs) = set xs"
  using mset_sort_Slice[of lessFn xs] by (rule mset_eq_setD)

lemma length_sort_Slice: "length (sort_Slice lessFn xs) = length xs"
  using mset_sort_Slice[of lessFn xs] by (rule mset_eq_length)

lemma set_insert_Slice: "set (insert_Slice lessFn x ys) = insert x (set ys)"
  using mset_insert_Slice[of lessFn x ys] by (metis mset_eq_setD set_mset_add_mset_insert set_mset_mset)

lemma sorted_insert_Slice:
  assumes "\<forall>y \<in> set (x # ys). \<exists>g. GrowthPercent y = Fin g"
    and "sorted_wrt (\<lambda>a b. f64_ge (GrowthPercent a) (GrowthPercent b)) ys"
  shows "sorted_wrt (\<lambda>a b. f64_ge (GrowthPercent a) (GrowthPercent b))
           (insert_Slice (\<lambda>a b. f64_greater (GrowthPercent a) (GrowthPercent b)) x ys)"
  using assms
proof (induction ys)
  case Nil
  then show ?case by simp
next
  case (Cons y ys)
  obtain gx gy where g: "GrowthPercent x = Fin gx" "GrowthPercent y = Fin gy"
    using Cons.prems(1) by auto
  have rest: "\<forall>z \<in> set ys. \<exists>gz. GrowthPercent z = Fin gz \<and> gz \<le> gy"
  proof
    fix z assume z: "z \<in> set ys"
    then obtain gz where gz: "GrowthPercent z = Fin gz" using Cons.prems(1) by auto
    have "f64_ge (GrowthPercent y) (GrowthPercent z)" using Cons.prems(2) z by simp
    then show "\<exists>gz. GrowthPercent z = Fin gz \<and> gz \<le> gy"
      by (simp add: g gz f64_ge_def)
  qed
  show ?case
  proof (cases "gx < gy")
    case True
    have "sorted_wrt (\<lambda>a b. f64_ge (GrowthPercent a) (GrowthPercent b))
            (insert_Slice (\<lambda>a b. f64_greater (GrowthPercent a) (GrowthPercent b)) x ys)"
      using Cons.prems by (intro Cons.IH) auto
    moreover have "\<forall>z \<in> set (insert_Slice (\<lambda>a b. f64_greater (GrowthPercent a) (GrowthPercent b)) x ys).
        f64_ge (GrowthPercent y) (GrowthPercent z)"
      using True rest by (auto simp: set_insert_Slice g f64_ge_def)
    ultimately show ?thesis using True by (simp add: g f64_greater_def)
  next
    case False
    then have "\<forall>z \<in> set (y # ys). f64_ge (GrowthPercent x) (GrowthPercent z)"
      using rest by (auto simp: g f64_ge_def)
    then show ?thesis using False Cons.prems(2) by (simp add: g f64_greater_def)
  qed
qed

lemma sorted_sort_Slice:
  assumes "\<forall>y \<in> set xs. \<exists>g. GrowthPercent y = Fin g"
  shows "sorted_wrt (\<lambda>a b. f64_ge (GrowthPercent a) (GrowthPercent b))
           (sort_Slice (\<lambda>a b. f64_greater (GrowthPercent a) (GrowthPercent b)) xs)"
  using assms
proof (induction xs)
  case Nil
  then show ?case by (simp add: sort_Slice_def)
next
  case (Cons x xs)
  have "\<forall>y \<in> set (x # sort_Slice (\<lambda>a b. f64_greater (GrowthPercent a) (GrowthPercent b)) xs).
          \<exists>g. GrowthPercent y = Fin g"
    using Cons.prems by (simp add: set_sort_Slice)
  moreover have "sorted_wrt (\<lambda>a b. f64_ge (GrowthPercent a) (GrowthPercent b))
          (sort_Slice (\<lambda>a b. f64_greater (GrowthPercent a) (GrowthPercent b)) xs)"
    using Cons.prems by (intro Cons.IH) simp
  ultimately show ?case
    using sorted_insert_Slice[of x "sort_Slice (\<lambda>a b. f64_greater (GrowthPercent a) (GrowthPercent b)) xs"]
    by (simp add: sort_Slice_def)
qed

lemma set_limitResults: "set (limitResults limit xs) \<subseteq> set xs"
  by (auto simp: limitResults_def dest: in_set_takeD)

lemma sorted_limitResults:
  "sorted_wrt P xs \<Longrightarrow> sorted_wrt P (limitResults limit xs)"
  by (simp add: limitResults_def sorted_wrt_take)

lemma length_limitResults: "0 < limit \<Longrightarrow> int (length (limitResults limit xs)) \<le> limit"
  by (simp add: limitResults_def)

lemma limitResults_all: "limit \<le> 0 \<or> int (length xs) \<le> limit \<Longrightarrow> limitResults limit xs = xs"
  by (auto simp: limitResults_def)

lemma set_rankSounds:
  "set (rankSounds criteria limit sounds historyMap) \<subseteq> set (scanSounds criteria historyMap sounds [])"
  unfolding rankSounds_def by (rule subset_trans[OF set_limitResults]) (simp add: set_sort_Slice)

lemma sorted_rankSounds:
  "sorted_wrt (\<lambda>a b. f64_ge (GrowthPercent a) (GrowthPercent b))
     (rankSounds criteria limit sounds historyMap)"
  unfolding rankSounds_def
  by (intro sorted_limitResults sorted_sort_Slice ballI scanSounds_finite_growth)

lemma rankSounds_all:
  assumes "limit \<le> 0 \<or> int (length (scanSounds criteria historyMap sounds [])) \<le> limit"
  shows "mset (rankSounds criteria limit sounds historyMap) =
           mset (scanSounds criteria historyMap sounds [])"
  unfolding rankSounds_def using assms
  by (simp add: limitResults_all length_sort_Slice mset_sort_Slice)

lemma DetectTrendingWithCriteria_results:
  "fst (fst (DetectTrendingWithCriteria category limit criteria db)) =
     (case fst (GetAllSoundsWithHistory category (LookbackHours criteria) db) of
        (sounds, historyMap, None) \<Rightarrow> rankSounds criteria limit sounds historyMap
      | (sounds, historyMap, Some err) \<Rightarrow> [])"
  unfolding DetectTrendingWithCriteria_def
  by (simp split: prod.split option.split)

section \<open>The example, evaluated\<close>

lemma example_category: "GetSoundsByCategory ''tech'' 1000 exampleDB = ((exampleSounds, None), exampleDB)"
  by (simp add: GetSoundsByCategory_def exampleDB_def exampleSounds_def driver_call_def)

lemma example_cutoff: "cutoffTime 360000000000000 24 = 273600000000000"
  by (simp add: cutoffTime_def)

lemma example_history_1: "GetSoundHistoryByTime 1 24 exampleDB =
  ((Some \<lparr>ID_hist = 1, SoundID = 1, UsesCount_hist = 1000, RecordedAt = 288000000000000\<rparr>, None), exampleDB)"
  by (simp add: GetSoundHistoryByTime_def exampleDB_def time_Now_def QueryRow_Scan_def driver_call_def example_cutoff)

lemma example_history_2: "GetSoundHistoryByTime 2 24 exampleDB =
  ((Some \<lparr>ID_hist = 2, SoundID = 2, UsesCount_hist = 0, RecordedAt = 288000000000000\<rparr>, None), exampleDB)"
  by (simp add: GetSoundHistoryByTime_def exampleDB_def time_Now_def QueryRow_Scan_def driver_call_def example_cutoff)

lemma example_history_3: "GetSoundHistoryByTime 3 24 exampleDB = ((None, None), exampleDB)"
  by (simp add: GetSoundHistoryByTime_def exampleDB_def time_Now_def QueryRow_Scan_def driver_call_def example_cutoff)

lemma example_all: "GetAllSoundsWithHistory ''tech'' 24 exampleDB = ((exampleSounds, exampleMap, None), exampleDB)"
  by (simp add: GetAllSoundsWithHistory_def example_category exampleSounds_def example_history_1 example_history_2 example_history_3 exampleMap_def)

lemma example_scan: "scanSounds DefaultCriteria exampleMap exampleSounds [] =
  [\<lparr>Sound = exampleSounds ! 0, GrowthPercent = Fin 160, OldUsesCount = 1000\<rparr>,
   \<lparr>Sound = exampleSounds ! 1, GrowthPercent = newSoundMarker, OldUsesCount = 0\<rparr>]"
  by (simp add: exampleSounds_def exampleMap_def DefaultCriteria_def word_sless_alt word_sle_eq
      calculateGrowth_1000_2600 f64_ge_def)

lemma example_detect: "fst (DetectTrendingWithCriteria ''tech'' 10 DefaultCriteria exampleDB) =
  ([\<lparr>Sound = exampleSounds ! 1, GrowthPercent = newSoundMarker, OldUsesCount = 0\<rparr>,
    \<lparr>Sound = exampleSounds ! 0, GrowthPercent = Fin 160, OldUsesCount = 1000\<rparr>], None)"
  by (simp add: DetectTrendingWithCriteria_def DefaultCriteria_def[THEN arg_cong[where f=LookbackHours]] 
      example_all rankSounds_def example_scan sort_Slice_def limitResults_def newSoundMarker_eq f64_greater_def)

section \<open>The results of DetectTrendingWithCriteria\<close>

lemma DetectTrendingWithCriteria_loaded:
  assumes "fst (GetAllSoundsWithHistory category (LookbackHours criteria) db) =
             (sounds, historyMap, None)"
  shows "fst (fst (DetectTrendingWithCriteria category limit criteria db)) =
           rankSounds criteria limit sounds historyMap"
  using assms unfolding DetectTrendingWithCriteria_results by simp

text \<open>
  C1: every result of \<open>DetectTrendingWithCriteria\<close> belongs to a sound of the category that
  has a baseline snapshot in the map, and carries that snapshot's count as \<open>OldUsesCount\<close>;
  when the baseline count is positive, its \<open>GrowthPercent\<close> is the \<^verbatim>\<open>float64\<close> computation
  \<^verbatim>\<open>float64(current - old) / float64(old) * 100.0\<close> on the sound's current count.
\<close>

theorem growth_formula:
  assumes "fst (GetAllSoundsWithHistory category (LookbackHours criteria) db) =
             (sounds, historyMap, None)"
    and "r \<in> set (fst (fst (DetectTrendingWithCriteria category limit criteria db)))"
  shows "\<exists>history. Sound r \<in> set sounds \<and>
           historyMap (ID (Sound r)) = Some (Some history) \<and>
           OldUsesCount r = UsesCount_hist history \<and>
           (0 <s UsesCount_hist history \<longrightarrow>
              GrowthPercent r =
                f64_mul (f64_div (f64_of_int64 (UsesCount (Sound r) - UsesCount_hist history))
                                 (f64_of_int64 (UsesCount_hist history)))
                        (Fin 100))"
proof -
  have "r \<in> set (scanSounds criteria historyMap sounds [])"
    using assms(2) set_rankSounds unfolding DetectTrendingWithCriteria_loaded[OF assms(1)]
    by blast
  from scanSounds_elem[OF this] obtain history where
    h: "Sound r \<in> set sounds" "historyMap (ID (Sound r)) = Some (Some history)"
       "OldUsesCount r = UsesCount_hist history"
       "GrowthPercent r =
          (if UsesCount_hist history = 0 then newSoundMarker
           else calculateGrowth (UsesCount_hist history) (UsesCount (Sound r)))"
    by auto
  have "GrowthPercent r =
          f64_mul (f64_div (f64_of_int64 (UsesCount (Sound r) - UsesCount_hist history))
                           (f64_of_int64 (UsesCount_hist history)))
                  (Fin 100)"
    if "0 <s UsesCount_hist history"
  proof -
    from that have "UsesCount_hist history \<noteq> 0" by auto
    then show ?thesis using h(4) by (simp add: calculateGrowth_def)
  qed
  with h(1-3) show ?thesis by blast
qed


lemma example_loaded:
  "fst (GetAllSoundsWithHistory ''tech'' (LookbackHours DefaultCriteria) exampleDB) =
     (exampleSounds, exampleMap, None)"
  by (simp add: DefaultCriteria_def example_all)

lemma example_results:
  "fst (fst (DetectTrendingWithCriteria ''tech'' 10 DefaultCriteria exampleDB)) =
     [\<lparr>Sound = exampleSounds ! 1, GrowthPercent = newSoundMarker, OldUsesCount = 0\<rparr>,
      \<lparr>Sound = exampleSounds ! 0, GrowthPercent = Fin 160, OldUsesCount = 1000\<rparr>]"
  by (simp add: example_detect)

theorem growth_formula_witness:
  "fst (GetAllSoundsWithHistory ''tech'' (LookbackHours DefaultCriteria) exampleDB) =
     (exampleSounds, exampleMap, None) \<and>
   \<lparr>Sound = exampleSounds ! 0, GrowthPercent = Fin 160, OldUsesCount = 1000\<rparr>
     \<in> set (fst (fst (DetectTrendingWithCriteria ''tech'' 10 DefaultCriteria exampleDB))) \<and>
   (\<exists>history. exampleMap (ID (exampleSounds ! 0)) = Some (Some history) \<and>
      UsesCount_hist history = 1000 \<and> 0 <s UsesCount_hist history \<and>
      Fin 160 =
        f64_mul (f64_div (f64_of_int64 (UsesCount (exampleSounds ! 0) - UsesCount_hist history))
                         (f64_of_int64 (UsesCount_hist history)))
                (Fin 100))"
proof -
  let ?r = "\<lparr>Sound = exampleSounds ! 0, GrowthPercent = Fin 160, OldUsesCount = 1000\<rparr>"
  have mem: "?r \<in> set (fst (fst (DetectTrendingWithCriteria ''tech'' 10 DefaultCriteria exampleDB)))"
    by (simp add: example_results)
  from growth_formula[OF example_loaded mem] obtain history where
    h: "exampleMap (ID (exampleSounds ! 0)) = Some (Some history)"
       "1000 = UsesCount_hist history"
       "0 <s UsesCount_hist history \<longrightarrow>
          Fin 160 =
            f64_mul (f64_div (f64_of_int64 (UsesCount (exampleSounds ! 0) - UsesCount_hist history))
                             (f64_of_int64 (UsesCount_hist history)))
                    (Fin 100)"
    by auto
  have pos: "0 <s UsesCount_hist history" unfolding h(2)[symmetric] by (simp add: word_sless_alt)
  with h example_loaded mem show ?thesis by auto
qed

text \<open>
  C6: every result has a current count inside the band of the criteria; the band is the
  first test of the loop.
\<close>

theorem results_in_band:
  "\<forall>r \<in> set (fst (fst (DetectTrendingWithCriteria category limit criteria db))).
     MinUsesCount criteria \<le>s UsesCount (Sound r) \<and>
     UsesCount (Sound r) \<le>s MaxUsesCount criteria"
proof
  fix r
  assume r: "r \<in> set (fst (fst (DetectTrendingWithCriteria category limit criteria db)))"
  obtain sounds historyMap err where
    l: "fst (GetAllSoundsWithHistory category (LookbackHours criteria) db) =
          (sounds, historyMap, err)"
    by (cases "fst (GetAllSoundsWithHistory category (LookbackHours criteria) db)") auto
  show "MinUsesCount criteria \<le>s UsesCount (Sound r) \<and>
        UsesCount (Sound r) \<le>s MaxUsesCount criteria"
  proof (cases err)
    case None
    then have "r \<in> set (scanSounds criteria historyMap sounds [])"
      using r l set_rankSounds unfolding DetectTrendingWithCriteria_results by fastforce
    from scanSounds_elem[OF this] show ?thesis by auto
  next
    case (Some e)
    then show ?thesis using r l unfolding DetectTrendingWithCriteria_results by simp
  qed
qed

theorem results_in_band_witness:
  "fst (fst (DetectTrendingWithCriteria ''tech'' 10 DefaultCriteria exampleDB)) =
     [\<lparr>Sound = exampleSounds ! 1, GrowthPercent = newSoundMarker, OldUsesCount = 0\<rparr>,
      \<lparr>Sound = exampleSounds ! 0, GrowthPercent = Fin 160, OldUsesCount = 1000\<rparr>] \<and>
   MinUsesCount DefaultCriteria \<le>s UsesCount (exampleSounds ! 1) \<and>
   UsesCount (exampleSounds ! 1) \<le>s MaxUsesCount DefaultCriteria \<and>
   MinUsesCount DefaultCriteria \<le>s UsesCount (exampleSounds ! 0) \<and>
   UsesCount (exampleSounds ! 0) \<le>s MaxUsesCount DefaultCriteria"
  using results_in_band[of "''tech''" 10 DefaultCriteria exampleDB]
  unfolding example_results by simp

text \<open>
  C7: the results are in descending order of \<open>GrowthPercent\<close>: each one is \<^verbatim>\<open>>=\<close> its
  successor (and every later result).
\<close>

theorem results_sorted:
  "sorted_wrt (\<lambda>a b. f64_ge (GrowthPercent a) (GrowthPercent b))
     (fst (fst (DetectTrendingWithCriteria category limit criteria db))) \<and>
   (\<forall>i. Suc i < length (fst (fst (DetectTrendingWithCriteria category limit criteria db))) \<longrightarrow>
      f64_ge (GrowthPercent (fst (fst (DetectTrendingWithCriteria category limit criteria db)) ! i))
             (GrowthPercent (fst (fst (DetectTrendingWithCriteria category limit criteria db)) ! Suc i)))"
proof -
  let ?rs = "fst (fst (DetectTrendingWithCriteria category limit criteria db))"
  have s: "sorted_wrt (\<lambda>a b. f64_ge (GrowthPercent a) (GrowthPercent b)) ?rs"
    unfolding DetectTrendingWithCriteria_results
    by (simp add: sorted_rankSounds split: prod.split option.split)
  then have "\<forall>i. Suc i < length ?rs \<longrightarrow>
      f64_ge (GrowthPercent (?rs ! i)) (GrowthPercent (?rs ! Suc i))"
    by (simp add: sorted_wrt_iff_nth_less)
  with s show ?thesis by blast
qed

theorem results_sorted_witness:
  "fst (fst (DetectTrendingWithCriteria ''tech'' 10 DefaultCriteria exampleDB)) =
     [\<lparr>Sound = exampleSounds ! 1, GrowthPercent = newSoundMarker, OldUsesCount = 0\<rparr>,
      \<lparr>Sound = exampleSounds ! 0, GrowthPercent = Fin 160, OldUsesCount = 1000\<rparr>] \<and>
   Suc 0 < length (fst (fst (DetectTrendingWithCriteria ''tech'' 10 DefaultCriteria exampleDB))) \<and>
   f64_ge newSoundMarker (Fin 160)"
  using results_sorted[of "''tech''" 10 DefaultCriteria exampleDB]
  unfolding example_results by simp

text \<open>
  C8: a positive \<open>limit\<close> bounds the number of results; with \<open>limit \<le> 0\<close> the results are
  all the sounds the loop accepted, each as often as it was accepted.
\<close>

theorem results_limited:
  "(0 < limit \<longrightarrow>
      int (length (fst (fst (DetectTrendingWithCriteria category limit criteria db)))) \<le> limit) \<and>
   (limit \<le> 0 \<longrightarrow>
      fst (GetAllSoundsWithHistory category (LookbackHours criteria) db) =
        (sounds, historyMap, None) \<longrightarrow>
      mset (fst (fst (DetectTrendingWithCriteria category limit criteria db))) =
        mset (scanSounds criteria historyMap sounds []))"
proof (intro conjI impI)
  assume "0 < limit"
  then show "int (length (fst (fst (DetectTrendingWithCriteria category limit criteria db)))) \<le> limit"
    unfolding DetectTrendingWithCriteria_results
    by (simp add: rankSounds_def length_limitResults split: prod.split option.split)
next
  assume "limit \<le> 0"
    and "fst (GetAllSoundsWithHistory category (LookbackHours criteria) db) =
           (sounds, historyMap, None)"
  then show "mset (fst (fst (DetectTrendingWithCriteria category limit criteria db))) =
        mset (scanSounds criteria historyMap sounds [])"
    by (simp add: DetectTrendingWithCriteria_loaded rankSounds_all)
qed


lemma example_rank:
  "fst (fst (DetectTrendingWithCriteria ''tech'' limit DefaultCriteria exampleDB)) =
     limitResults limit
       [\<lparr>Sound = exampleSounds ! 1, GrowthPercent = newSoundMarker, OldUsesCount = 0\<rparr>,
        \<lparr>Sound = exampleSounds ! 0, GrowthPercent = Fin 160, OldUsesCount = 1000\<rparr>]"
  unfolding DetectTrendingWithCriteria_loaded[OF example_loaded]
  by (simp add: rankSounds_def example_scan sort_Slice_def newSoundMarker_eq f64_greater_def)

theorem results_limited_witness:
  "(0::int) < 1 \<and>
   fst (fst (DetectTrendingWithCriteria ''tech'' 1 DefaultCriteria exampleDB)) =
     [\<lparr>Sound = exampleSounds ! 1, GrowthPercent = newSoundMarker, OldUsesCount = 0\<rparr>] \<and>
   int (length (fst (fst (DetectTrendingWithCriteria ''tech'' 1 DefaultCriteria exampleDB)))) \<le> 1 \<and>
   (0::int) \<le> 0 \<and>
   fst (GetAllSoundsWithHistory ''tech'' (LookbackHours DefaultCriteria) exampleDB) =
     (exampleSounds, exampleMap, None) \<and>
   length (scanSounds DefaultCriteria exampleMap exampleSounds []) = 2 \<and>
   mset (fst (fst (DetectTrendingWithCriteria ''tech'' 0 DefaultCriteria exampleDB))) =
     mset (scanSounds DefaultCriteria exampleMap exampleSounds [])"
  using results_limited[of 1 "''tech''" DefaultCriteria exampleDB exampleSounds exampleMap]
    results_limited[of 0 "''tech''" DefaultCriteria exampleDB exampleSounds exampleMap]
    example_loaded
  by (simp add: example_rank limitResults_def example_scan)

text \<open>
  C2: a sound inside the band whose baseline snapshot counts 0 uses is accepted by the
  loop with the marker as \<open>GrowthPercent\<close> and 0 as \<open>OldUsesCount\<close>; it is among the results
  whenever the limit cuts nothing off, and every result for it carries these two values.
  The marker is one fixed number, and \<open>calculateGrowth\<close> never returns it for a baseline
  other than 0: no binary64 number times 100 rounds to it.
\<close>

theorem new_sound_marker:
  assumes "fst (GetAllSoundsWithHistory category (LookbackHours criteria) db) =
             (sounds, historyMap, None)"
    and "sound \<in> set sounds"
    and "historyMap (ID sound) = Some (Some history)" "UsesCount_hist history = 0"
    and "MinUsesCount criteria \<le>s UsesCount sound" "UsesCount sound \<le>s MaxUsesCount criteria"
  shows "\<lparr>Sound = sound, GrowthPercent = newSoundMarker, OldUsesCount = 0\<rparr>
           \<in> set (scanSounds criteria historyMap sounds []) \<and>
         (limit \<le> 0 \<or> int (length (scanSounds criteria historyMap sounds [])) \<le> limit \<longrightarrow>
            \<lparr>Sound = sound, GrowthPercent = newSoundMarker, OldUsesCount = 0\<rparr>
              \<in> set (fst (fst (DetectTrendingWithCriteria category limit criteria db)))) \<and>
         (\<forall>r \<in> set (fst (fst (DetectTrendingWithCriteria category limit criteria db))).
            Sound r = sound \<longrightarrow> GrowthPercent r = newSoundMarker \<and> OldUsesCount r = 0) \<and>
         newSoundMarker = Fin (8795213412905779 / 8796093022208) \<and>
         (\<forall>oldCount newCount.
            oldCount \<noteq> 0 \<longrightarrow> calculateGrowth oldCount newCount \<noteq> newSoundMarker)"
proof (intro conjI impI ballI allI)
  let ?new = "\<lparr>Sound = sound, GrowthPercent = newSoundMarker, OldUsesCount = 0\<rparr>"
  let ?rs = "fst (fst (DetectTrendingWithCriteria category limit criteria db))"
  show acc: "?new \<in> set (scanSounds criteria historyMap sounds [])"
    using assms(2,5,6,3,4) by (rule scanSounds_new)
  show "?new \<in> set ?rs"
    if "limit \<le> 0 \<or> int (length (scanSounds criteria historyMap sounds [])) \<le> limit"
  proof -
    have "mset ?rs = mset (scanSounds criteria historyMap sounds [])"
      unfolding DetectTrendingWithCriteria_loaded[OF assms(1)] by (rule rankSounds_all[OF that])
    then have "set ?rs = set (scanSounds criteria historyMap sounds [])" by (rule mset_eq_setD)
    with acc show ?thesis by simp
  qed
  show "GrowthPercent r = newSoundMarker" "OldUsesCount r = 0"
    if "r \<in> set ?rs" "Sound r = sound" for r
  proof -
    have "r \<in> set (scanSounds criteria historyMap sounds [])"
      using that(1) set_rankSounds unfolding DetectTrendingWithCriteria_loaded[OF assms(1)]
      by blast
    from scanSounds_elem[OF this] that(2) assms(3,4)
    show "GrowthPercent r = newSoundMarker" "OldUsesCount r = 0" by auto
  qed
  show "newSoundMarker = Fin (8795213412905779 / 8796093022208)" by (rule newSoundMarker_eq)
  show "calculateGrowth oldCount newCount \<noteq> newSoundMarker" if "oldCount \<noteq> 0"
    for oldCount newCount
    by (rule calculateGrowth_not_marker[OF that])
qed

theorem new_sound_marker_witness:
  "fst (GetAllSoundsWithHistory ''tech'' (LookbackHours DefaultCriteria) exampleDB) =
     (exampleSounds, exampleMap, None) \<and>
   exampleSounds ! 1 \<in> set exampleSounds \<and>
   exampleMap (ID (exampleSounds ! 1)) =
     Some (Some \<lparr>ID_hist = 2, SoundID = 2, UsesCount_hist = 0, RecordedAt = 288000000000000\<rparr>) \<and>
   MinUsesCount DefaultCriteria \<le>s UsesCount (exampleSounds ! 1) \<and>
   UsesCount (exampleSounds ! 1) \<le>s MaxUsesCount DefaultCriteria \<and>
   int (length (scanSounds DefaultCriteria exampleMap exampleSounds [])) \<le> 10 \<and>
   \<lparr>Sound = exampleSounds ! 1, GrowthPercent = newSoundMarker, OldUsesCount = 0\<rparr>
     \<in> set (fst (fst (DetectTrendingWithCriteria ''tech'' 10 DefaultCriteria exampleDB))) \<and>
   (1000 :: int64) \<noteq> 0 \<and> calculateGrowth 1000 2600 \<noteq> newSoundMarker"
proof -
  have a: "exampleSounds ! 1 \<in> set exampleSounds" by (simp add: exampleSounds_def)
  have b: "exampleMap (ID (exampleSounds ! 1)) =
     Some (Some \<lparr>ID_hist = 2, SoundID = 2, UsesCount_hist = 0, RecordedAt = 288000000000000\<rparr>)"
    by (simp add: exampleSounds_def exampleMap_def)
  have c: "MinUsesCount DefaultCriteria \<le>s UsesCount (exampleSounds ! 1)"
    "UsesCount (exampleSounds ! 1) \<le>s MaxUsesCount DefaultCriteria"
    by (simp_all add: exampleSounds_def DefaultCriteria_def word_sle_eq)
  have d: "int (length (scanSounds DefaultCriteria exampleMap exampleSounds [])) \<le> 10"
    by (simp add: example_scan)
  have e: "UsesCount_hist \<lparr>ID_hist = 2, SoundID = 2, UsesCount_hist = 0,
              RecordedAt = 288000000000000\<rparr> = 0"
    by simp
  from new_sound_marker[where historyMap = exampleMap and limit = 10,
      OF example_loaded a b e c] d a b c example_loaded
  show ?thesis by simp
qed

section \<open>The storage operations\<close>

lemma driver_call_eq:
  "driver_call db = (f, db') \<Longrightarrow>
     sounds_table db' = sounds_table db \<and> sound_history_table db' = sound_history_table db \<and>
     sounds_seq db' = sounds_seq db \<and> sound_history_seq db' = sound_history_seq db \<and>
     now db' = now db \<and> ticks db' = ticks db \<and>
     (faults db = [] \<and> f = None \<and> faults db' = [] \<or> faults db = f # faults db')"
  by (auto simp: driver_call_def split: list.splits)

lemma time_Now_eq:
  "time_Now db = (t, db') \<Longrightarrow>
     sounds_table db' = sounds_table db \<and> sound_history_table db' = sound_history_table db \<and>
     sounds_seq db' = sounds_seq db \<and> sound_history_seq db' = sound_history_seq db \<and>
     faults db' = faults db \<and> now db' = t \<and> now db \<le> t"
  by (auto simp: time_Now_def split: list.splits)

lemma filter_first:
  assumes "filter P xs = y # ys"
  shows "y \<in> set xs" "P y"
proof -
  have "y \<in> set (filter P xs)" unfolding assms by simp
  then show "y \<in> set xs" "P y" by simp_all
qed

lemma GetSoundByURL_eq:
  assumes "GetSoundByURL url db = ((existing, err), db')"
  shows "sounds_table db' = sounds_table db" "sound_history_table db' = sound_history_table db"
    "sounds_seq db' = sounds_seq db" "sound_history_seq db' = sound_history_seq db"
    "now db' = now db" "ticks db' = ticks db"
    "existing \<noteq> None \<Longrightarrow> err = None \<and> the existing \<in> set (sounds_table db) \<and> URL (the existing) = url"
    "existing = None \<Longrightarrow> err = None \<Longrightarrow> url \<notin> URL ` set (sounds_table db)"
  using assms
  by (auto simp: GetSoundByURL_def QueryRow_Scan_def filter_empty_conv
      split: prod.splits option.splits list.splits if_splits dest!: driver_call_eq
      dest: filter_first)


lemma SaveSound_eq:
  assumes "SaveSound sound db = ((sound', err), db')"
  shows "sound_history_table db' = sound_history_table db"
    and "sound_history_seq db' = sound_history_seq db"
    and "URL sound' = URL sound" and "UsesCount sound' = UsesCount sound"
    and "err = None \<Longrightarrow> URL sound \<notin> URL ` set (sounds_table db) \<and>
           sounds_table db' = sounds_table db @ [sound']"
    and "sounds_table db' = sounds_table db \<or>
         URL sound \<notin> URL ` set (sounds_table db) \<and>
         sounds_table db' = sounds_table db @ [sound\<lparr>ID := sounds_seq db + 1\<rparr>]"
  using assms
  by (auto simp: SaveSound_def Let_def
      split: prod.splits option.splits if_splits dest!: driver_call_eq)

lemma UpdateSound_eq:
  assumes "UpdateSound sound db = (err, db')"
  shows "map URL (sounds_table db') = map URL (sounds_table db)"
    and "map ID (sounds_table db') = map ID (sounds_table db)"
    and "sound_history_table db' = sound_history_table db"
    and "sound_history_seq db' = sound_history_seq db"
    and "err = None \<Longrightarrow>
           \<forall>r \<in> set (sounds_table db'). ID r = ID sound \<longrightarrow> UsesCount r = UsesCount sound"
  using assms
  by (auto simp: UpdateSound_def o_def
      split: prod.splits option.splits if_splits dest!: driver_call_eq)

lemma SaveSoundHistory_eq:
  assumes "SaveSoundHistory soundID usesCount db = (err, db')"
  shows "sounds_table db' = sounds_table db"
    and "err = None \<Longrightarrow>
           \<exists>h. sound_history_table db' = sound_history_table db @ [h] \<and>
               SoundID h = soundID \<and> UsesCount_hist h = usesCount"
    and "err \<noteq> None \<Longrightarrow> sound_history_table db' = sound_history_table db"
  using assms
  by (auto simp: SaveSoundHistory_def Let_def
      split: prod.splits option.splits if_splits dest!: driver_call_eq time_Now_eq)

lemma SaveSoundWithHistory_no_panic: "fst (SaveSoundWithHistory sound db) \<noteq> Panics"
proof -
  have False
    if "SaveSound s0 d0 = ((sound1, None), db4)"
      and "GetSoundByURL (URL sound1) db4 = ((None, None), db5)" for s0 d0 sound1 db4 db5
  proof -
    have "sounds_table db4 = sounds_table d0 @ [sound1]" using SaveSound_eq(5)[OF that(1)] by simp
    moreover have "URL sound1 \<notin> URL ` set (sounds_table db4)"
      using GetSoundByURL_eq(8)[OF that(2)] by simp
    ultimately show False by simp
  qed
  then show ?thesis
    unfolding SaveSoundWithHistory_def
    by (auto simp: Let_def split: prod.splits option.splits if_splits)
qed


lemma SaveSoundWithHistory_urls:
  "map URL (sounds_table (snd (SaveSoundWithHistory sound db))) = map URL (sounds_table db) \<or>
   URL sound \<notin> URL ` set (sounds_table db) \<and>
   map URL (sounds_table (snd (SaveSoundWithHistory sound db))) =
     map URL (sounds_table db) @ [URL sound]"
proof -
  have upd: "map URL (sounds_table db4) = map URL (sounds_table db)"
    if "GetSoundByURL (URL sound) db = (r, db1)" "time_Now db1 = (t, db2)"
      "UpdateSound s1 db2 = (e, db3)" "db4 = db3 \<or> SaveSoundHistory i u db3 = (e', db4)"
    for r db1 t db2 s1 e db3 i u e' db4
    using that GetSoundByURL_eq(1)[of "URL sound" db "fst r" "snd r" db1]
      time_Now_eq[of db1 t db2] UpdateSound_eq(1)[of s1 db2 e db3]
      SaveSoundHistory_eq(1)[of i u db3 e' db4]
    by auto
  have new: "map URL (sounds_table db6) = map URL (sounds_table db) \<or>
      URL sound \<notin> URL ` set (sounds_table db) \<and>
      map URL (sounds_table db6) = map URL (sounds_table db) @ [URL sound]"
    if "GetSoundByURL (URL sound) db = (r, db1)" "time_Now db1 = (t1, db2)"
      "time_Now db2 = (t2, db3)"
      "SaveSound (sound\<lparr>CreatedAt := t1, UpdatedAt := t2\<rparr>) db3 = ((s1, e), db4)"
      "db6 = db4 \<or> GetSoundByURL u db4 = (r', db6) \<or>
       (\<exists>db5. GetSoundByURL u db4 = (r', db5) \<and> SaveSoundHistory i c db5 = (e', db6))"
    for r db1 t1 db2 t2 db3 s1 e db4 u r' db6 i c e'
  proof -
    have a: "sounds_table db3 = sounds_table db"
      using that(1-3) GetSoundByURL_eq(1)[of "URL sound" db "fst r" "snd r" db1]
        time_Now_eq[of db1 t1 db2] time_Now_eq[of db2 t2 db3]
      by auto
    have b: "sounds_table db6 = sounds_table db4"
      using that(5) GetSoundByURL_eq(1)[of u db4 "fst r'" "snd r'"] SaveSoundHistory_eq(1)[of i c _ e' db6]
      by auto
    from SaveSound_eq(6)[OF that(4)] show ?thesis unfolding a b by auto
  qed
  show ?thesis
    unfolding SaveSoundWithHistory_def
    by (auto simp: Let_def split: prod.splits option.splits if_splits
        dest: upd[OF _ _ _ disjI1, OF _ _ _ refl] upd[OF _ _ _ disjI2] new)
qed


text \<open>The two paths of \<open>SaveSoundWithHistory\<close>, step by step.\<close>

lemma SaveSoundWithHistory_paths:
  assumes "SaveSoundWithHistory sound db = (res, db')"
  obtains
    (update) ex db1 t db2 e db3 r where
      "GetSoundByURL (URL sound) db = ((Some ex, None), db1)"
      "time_Now db1 = (t, db2)"
      "UpdateSound (sound\<lparr>ID := ID ex, CreatedAt := CreatedAt ex, UpdatedAt := t\<rparr>) db2 = (e, db3)"
      "e \<noteq> None \<and> r = e \<and> db' = db3 \<or>
       e = None \<and> SaveSoundHistory (ID ex) (UsesCount sound) db3 = (r, db')"
      "res = Returns (sound\<lparr>ID := ID ex, CreatedAt := CreatedAt ex, UpdatedAt := t\<rparr>, r)"
  | (create_failed) existing err db1 t1 db2 t2 db3 sound1 e where
      "GetSoundByURL (URL sound) db = ((existing, err), db1)" "err \<noteq> None \<or> existing = None"
      "time_Now db1 = (t1, db2)" "time_Now db2 = (t2, db3)"
      "SaveSound (sound\<lparr>CreatedAt := t1, UpdatedAt := t2\<rparr>) db3 = ((sound1, Some e), db')"
      "res = Returns (sound1, Some e)"
  | (created) existing err db1 t1 db2 t2 db3 sound1 db4 created e db5 r where
      "GetSoundByURL (URL sound) db = ((existing, err), db1)" "err \<noteq> None \<or> existing = None"
      "time_Now db1 = (t1, db2)" "time_Now db2 = (t2, db3)"
      "SaveSound (sound\<lparr>CreatedAt := t1, UpdatedAt := t2\<rparr>) db3 = ((sound1, None), db4)"
      "GetSoundByURL (URL sound1) db4 = ((created, e), db5)"
      "e \<noteq> None \<and> res = Returns (sound1, e) \<and> db' = db5 \<or>
       e = None \<and> created = None \<and> res = Panics \<and> db' = db5 \<or>
       e = None \<and> created \<noteq> None \<and>
         SaveSoundHistory (ID (the created)) (UsesCount sound1) db5 = (r, db') \<and>
         res = Returns (sound1\<lparr>ID := ID (the created)\<rparr>, r)"
proof -
  obtain existing err db1 where g: "GetSoundByURL (URL sound) db = ((existing, err), db1)"
    by (metis prod.exhaust)
  show thesis
  proof (cases "err = None \<and> existing \<noteq> None")
    case True
    then obtain ex where ex: "existing = Some ex" "err = None" by auto
    obtain t db2 where t: "time_Now db1 = (t, db2)" by (metis prod.exhaust)
    obtain e db3 where
      u: "UpdateSound (sound\<lparr>ID := ID ex, CreatedAt := CreatedAt ex, UpdatedAt := t\<rparr>) db2 = (e, db3)"
      by (metis prod.exhaust)
    show thesis
    proof (cases e)
      case None
      obtain r db4 where h: "SaveSoundHistory (ID ex) (UsesCount sound) db3 = (r, db4)"
        by (metis prod.exhaust)
      show thesis
        using assms g ex t u None h
        by (intro update[of ex db1 t db2 e db3 r]) (auto simp: SaveSoundWithHistory_def)
    next
      case (Some a)
      show thesis
        using assms g ex t u Some
        by (intro update[of ex db1 t db2 e db3 e]) (auto simp: SaveSoundWithHistory_def)
    qed
  next
    case False
    then have f: "err \<noteq> None \<or> existing = None" by auto
    obtain t1 db2 where t1: "time_Now db1 = (t1, db2)" by (metis prod.exhaust)
    obtain t2 db3 where t2: "time_Now db2 = (t2, db3)" by (metis prod.exhaust)
    obtain sound1 se db4 where
      sv: "SaveSound (sound\<lparr>CreatedAt := t1, UpdatedAt := t2\<rparr>) db3 = ((sound1, se), db4)"
      by (metis prod.exhaust)
    show thesis
    proof (cases se)
      case (Some e)
      show thesis
        using assms g False t1 t2 sv Some
        by (intro create_failed[of existing err db1 t1 db2 t2 db3 sound1 e])
           (auto simp: SaveSoundWithHistory_def)
    next
      case None
      obtain created e db5 where
        g2: "GetSoundByURL (URL sound1) db4 = ((created, e), db5)"
        by (metis prod.exhaust)
      obtain r db6 where
        h: "SaveSoundHistory (ID (the created)) (UsesCount sound1) db5 = (r, db6)"
        by (metis prod.exhaust)
      show thesis
        using assms g False t1 t2 sv None g2 h
        by (intro created[of existing err db1 t1 db2 t2 db3 sound1 db4 created e db5 r])
           (auto simp: SaveSoundWithHistory_def split: option.splits)
    qed
  qed
qed


lemma UpdateSound_row:
  assumes "UpdateSound sound db = (None, db')" "row \<in> set (sounds_table db)" "ID row = ID sound"
  shows "\<exists>row' \<in> set (sounds_table db').
           URL row' = URL row \<and> ID row' = ID sound \<and> UsesCount row' = UsesCount sound"
proof -
  let ?f = "\<lambda>r. if ID r = ID sound
                 then r\<lparr>Title := Title sound, Author := Author sound,
                        UsesCount := UsesCount sound, Category := Category sound,
                        UpdatedAt := UpdatedAt sound\<rparr>
                 else r"
  have "sounds_table db' = map ?f (sounds_table db)"
    using assms(1)
    by (auto simp: UpdateSound_def split: prod.splits option.splits dest!: driver_call_eq)
  then have "?f row \<in> set (sounds_table db')" using assms(2) by simp
  moreover have "URL (?f row) = URL row" "ID (?f row) = ID sound"
    "UsesCount (?f row) = UsesCount sound"
    using assms(3) by simp_all
  ultimately show ?thesis by blast
qed

text \<open>A call that returns nil has appended one snapshot and left the item with the count.\<close>

lemma SaveSoundWithHistory_success:
  assumes "SaveSoundWithHistory sound db = (Returns (sound', None), db')"
  shows "\<exists>h. sound_history_table db' = sound_history_table db @ [h] \<and>
             SoundID h = ID sound' \<and> UsesCount_hist h = UsesCount sound"
    and "\<exists>row \<in> set (sounds_table db').
             URL row = URL sound \<and> ID row = ID sound' \<and> UsesCount row = UsesCount sound"
proof -
  have "(\<exists>h. sound_history_table db' = sound_history_table db @ [h] \<and>
             SoundID h = ID sound' \<and> UsesCount_hist h = UsesCount sound) \<and>
        (\<exists>row \<in> set (sounds_table db').
             URL row = URL sound \<and> ID row = ID sound' \<and> UsesCount row = UsesCount sound)"
    using assms
  proof (cases rule: SaveSoundWithHistory_paths)
    case (update ex db1 t db2 e db3 r)
    let ?s1 = "sound\<lparr>ID := ID ex, CreatedAt := CreatedAt ex, UpdatedAt := t\<rparr>"
    from update(4,5) have e: "e = None" and r: "r = None"
      and h: "SaveSoundHistory (ID ex) (UsesCount sound) db3 = (None, db')"
      and s': "sound' = ?s1"
      by auto
    have ex: "ex \<in> set (sounds_table db2)" "URL ex = URL sound"
      using GetSoundByURL_eq(1,7)[OF update(1)] time_Now_eq[OF update(2)] by auto
    have "sound_history_table db3 = sound_history_table db"
      using GetSoundByURL_eq(2)[OF update(1)] time_Now_eq[OF update(2)]
        UpdateSound_eq(3)[OF update(3)] by simp
    moreover obtain row where "row \<in> set (sounds_table db3)" "URL row = URL ex"
      "ID row = ID ?s1" "UsesCount row = UsesCount ?s1"
      using UpdateSound_row[OF update(3)[unfolded e] ex(1)] by auto
    ultimately show ?thesis
      using SaveSoundHistory_eq(1,2)[OF h] ex(2) s' by auto
  next
    case (create_failed existing err db1 t1 db2 t2 db3 sound1 e)
    then show ?thesis by simp
  next
    case (created existing err db1 t1 db2 t2 db3 sound1 db4 created e db5 r)
    from created(7) obtain c where c: "created = Some c" and e: "e = None" and r: "r = None"
      and h: "SaveSoundHistory (ID c) (UsesCount sound1) db5 = (None, db')"
      and s': "sound' = sound1\<lparr>ID := ID c\<rparr>"
      by auto
    have s1: "URL sound1 = URL sound" "UsesCount sound1 = UsesCount sound"
      using SaveSound_eq(3,4)[OF created(5)] by simp_all
    have t4: "URL sound1 \<notin> URL ` set (sounds_table db3)"
      "sounds_table db4 = sounds_table db3 @ [sound1]"
      using SaveSound_eq(5)[OF created(5)] s1 by simp_all
    have "c \<in> set (sounds_table db4)" "URL c = URL sound1"
      using GetSoundByURL_eq(7)[OF created(6)] c by simp_all
    then have cs: "c = sound1" using t4 by (force simp: image_iff)
    have "sound_history_table db5 = sound_history_table db"
      using GetSoundByURL_eq(2)[OF created(1)] time_Now_eq[OF created(3)]
        time_Now_eq[OF created(4)] SaveSound_eq(1)[OF created(5)]
        GetSoundByURL_eq(2)[OF created(6)] by simp
    moreover have "sounds_table db' = sounds_table db3 @ [sound1]"
      using SaveSoundHistory_eq(1)[OF h] GetSoundByURL_eq(1)[OF created(6)] t4(2) by simp
    ultimately show ?thesis
      using SaveSoundHistory_eq(2)[OF h] s1 s' cs by auto
  qed
  then show "\<exists>h. sound_history_table db' = sound_history_table db @ [h] \<and>
             SoundID h = ID sound' \<and> UsesCount_hist h = UsesCount sound"
    and "\<exists>row \<in> set (sounds_table db').
             URL row = URL sound \<and> ID row = ID sound' \<and> UsesCount row = UsesCount sound"
    by blast+
qed

text \<open>A call that returns an error has appended no snapshot.\<close>

lemma SaveSoundWithHistory_error:
  assumes "SaveSoundWithHistory sound db = (Returns (sound', Some e), db')"
  shows "sound_history_table db' = sound_history_table db"
  using assms
proof (cases rule: SaveSoundWithHistory_paths)
  case (update ex db1 t db2 e' db3 r)
  have "sound_history_table db3 = sound_history_table db"
    using GetSoundByURL_eq(2)[OF update(1)] time_Now_eq[OF update(2)]
      UpdateSound_eq(3)[OF update(3)] by simp
  then show ?thesis
    using update(4,5) SaveSoundHistory_eq(3)[of "ID ex" "UsesCount sound" db3 r db'] by auto
next
  case (create_failed existing err db1 t1 db2 t2 db3 sound1 e')
  then show ?thesis
    using GetSoundByURL_eq(2)[OF create_failed(1)] time_Now_eq[OF create_failed(3)]
      time_Now_eq[OF create_failed(4)] SaveSound_eq(1)[OF create_failed(5)] by simp
next
  case (created existing err db1 t1 db2 t2 db3 sound1 db4 created e' db5 r)
  have "sound_history_table db5 = sound_history_table db"
    using GetSoundByURL_eq(2)[OF created(1)] time_Now_eq[OF created(3)]
      time_Now_eq[OF created(4)] SaveSound_eq(1)[OF created(5)]
      GetSoundByURL_eq(2)[OF created(6)] by simp
  then show ?thesis
    using created(7)
      SaveSoundHistory_eq(3)[of "ID (the created)" "UsesCount sound1" db5 r db'] by auto
qed


text \<open>Without driver failures and with rowids left, every operation succeeds.\<close>

lemma driver_call_quiet: "faults db = [] \<Longrightarrow> driver_call db = (None, db)"
  by (simp add: driver_call_def)

lemma SaveSoundWithHistory_create:
  assumes "GetSoundByURL (URL sound) db = ((existing, err), db1)" "err \<noteq> None \<or> existing = None"
    and "URL sound \<notin> URL ` set (sounds_table db)" "faults db1 = []"
    and "sounds_seq db \<noteq> max_int64" "sound_history_seq db \<noteq> max_int64"
  shows "\<exists>sound' db'. SaveSoundWithHistory sound db = (Returns (sound', None), db') \<and>
           sounds_table db' = sounds_table db @ [sound']"
proof -
  obtain t1 db2 where t1: "time_Now db1 = (t1, db2)" by (metis prod.exhaust)
  obtain t2 db3 where t2: "time_Now db2 = (t2, db3)" by (metis prod.exhaust)
  let ?s = "sound\<lparr>CreatedAt := t1, UpdatedAt := t2\<rparr>"
  let ?s1 = "?s\<lparr>ID := sounds_seq db + 1\<rparr>"
  let ?db4 = "db3\<lparr>sounds_table := sounds_table db3 @ [?s1], sounds_seq := sounds_seq db + 1\<rparr>"
  have same: "sounds_table db3 = sounds_table db" "sounds_seq db3 = sounds_seq db"
    "sound_history_seq db3 = sound_history_seq db" "faults db3 = []"
    using GetSoundByURL_eq(1,3,4)[OF assms(1)] time_Now_eq[OF t1] time_Now_eq[OF t2] assms(4)
    by simp_all
  have sv: "SaveSound ?s db3 = ((?s1, None), ?db4)"
    using same assms(3,5) by (simp add: SaveSound_def driver_call_def Let_def)
  have "filter (\<lambda>r. URL r = URL sound) (sounds_table db3 @ [?s1]) = [?s1]"
    using assms(3) same(1) by (auto simp: filter_empty_conv image_iff)
  then have g2: "GetSoundByURL (URL ?s1) ?db4 = ((Some ?s1, None), ?db4)"
    using same(4) by (simp add: GetSoundByURL_def QueryRow_Scan_def driver_call_def)
  obtain t3 db6 where t3: "time_Now ?db4 = (t3, db6)" by (metis prod.exhaust)
  have db6: "sounds_table db6 = sounds_table db @ [?s1]" "faults db6 = []"
    "sound_history_seq db6 = sound_history_seq db"
    using time_Now_eq[OF t3] same by simp_all
  have "\<exists>db'. SaveSoundHistory (ID ?s1) (UsesCount ?s1) ?db4 = (None, db') \<and>
          sounds_table db' = sounds_table db @ [?s1]"
    using t3 db6 assms(6) by (simp add: SaveSoundHistory_def driver_call_def Let_def)
  then obtain db' where h: "SaveSoundHistory (ID ?s1) (UsesCount ?s1) ?db4 = (None, db')"
    "sounds_table db' = sounds_table db @ [?s1]"
    by blast
  have "SaveSoundWithHistory sound db = (Returns (?s1\<lparr>ID := ID ?s1\<rparr>, None), db')"
    using assms(1,2) t1 t2 sv g2 h(1)
    by (auto simp: SaveSoundWithHistory_def)
  then show ?thesis using h(2) by auto
qed

lemma SaveSoundWithHistory_quiet:
  assumes "faults db = []" "sounds_seq db \<noteq> max_int64" "sound_history_seq db \<noteq> max_int64"
  shows "\<exists>sound' db'. SaveSoundWithHistory sound db = (Returns (sound', None), db')"
proof -
  obtain existing err db1 where g: "GetSoundByURL (URL sound) db = ((existing, err), db1)"
    by (metis prod.exhaust)
  have err: "err = None" and f1: "faults db1 = []"
    using g assms(1)
    by (auto simp: GetSoundByURL_def QueryRow_Scan_def driver_call_def split: list.splits)
  show ?thesis
  proof (cases existing)
    case None
    then have "URL sound \<notin> URL ` set (sounds_table db)"
      using GetSoundByURL_eq(8)[OF g] err by simp
    from SaveSoundWithHistory_create[OF g _ this f1 assms(2,3)] None show ?thesis by blast
  next
    case (Some ex)
    obtain t db2 where t: "time_Now db1 = (t, db2)" by (metis prod.exhaust)
    let ?s1 = "sound\<lparr>ID := ID ex, CreatedAt := CreatedAt ex, UpdatedAt := t\<rparr>"
    have f2: "faults db2 = []" "sounds_table db2 = sounds_table db"
      "sound_history_seq db2 = sound_history_seq db"
      using time_Now_eq[OF t] f1 GetSoundByURL_eq(1,4)[OF g] by simp_all
    obtain db3 where u: "UpdateSound ?s1 db2 = (None, db3)"
      using f2 by (simp add: UpdateSound_def driver_call_def)
    have ex: "ex \<in> set (sounds_table db)" using GetSoundByURL_eq(7)[OF g] Some by simp
    then have "ID ex \<in> ID ` set (sounds_table db)" by (rule imageI)
    then have "ID ex \<in> set (map ID (sounds_table db3))"
      using UpdateSound_eq(2)[OF u] f2(2) by simp
    then have id3: "ID ex \<in> ID ` set (sounds_table db3)" by simp
    have f3: "faults db3 = []" "sound_history_seq db3 = sound_history_seq db"
      using u f2 UpdateSound_eq(4)[OF u]
      by (auto simp: UpdateSound_def driver_call_def)
    obtain t3 db4 where t3: "time_Now db3 = (t3, db4)" by (metis prod.exhaust)
    have "\<exists>db'. SaveSoundHistory (ID ex) (UsesCount sound) db3 = (None, db')"
      using t3 time_Now_eq[OF t3] f3 id3 assms(3)
      by (simp add: SaveSoundHistory_def driver_call_def Let_def)
    then obtain db' where "SaveSoundHistory (ID ex) (UsesCount sound) db3 = (None, db')" by blast
    then have "SaveSoundWithHistory sound db = (Returns (?s1, None), db')"
      using g Some err t u by (simp add: SaveSoundWithHistory_def)
    then show ?thesis by blast
  qed
qed

text \<open>An url that is in the table stays the only item of its url, whatever happens.\<close>

lemma SaveSoundWithHistory_known_url:
  assumes "URL sound \<in> URL ` set (sounds_table db)"
  shows "map URL (sounds_table (snd (SaveSoundWithHistory sound db))) = map URL (sounds_table db)"
  using SaveSoundWithHistory_urls[of sound db] assms by auto

lemma SaveSoundWithHistory_distinct:
  assumes "distinct (map URL (sounds_table db))"
  shows "distinct (map URL (sounds_table (snd (SaveSoundWithHistory sound db))))"
  using SaveSoundWithHistory_urls[of sound db] assms by auto

section \<open>SaveSoundWithHistory\<close>

lemma example_save_known:
  "SaveSoundWithHistory knownObservation exampleDB =
     (Returns (knownObservation\<lparr>ID := 1, UpdatedAt := 360000000000000\<rparr>, None),
      exampleDB\<lparr>sounds_table :=
          [\<lparr>ID = 1, Title = ''T1'', Author = ''A1'', URL = ''u1'', UsesCount = 2700,
            Category = ''tech'', CreatedAt = 0, UpdatedAt = 360000000000000\<rparr>,
           \<lparr>ID = 2, Title = ''T2'', Author = ''A2'', URL = ''u2'', UsesCount = 5000,
            Category = ''tech'', CreatedAt = 0, UpdatedAt = 200\<rparr>,
           \<lparr>ID = 3, Title = ''T3'', Author = ''A3'', URL = ''u3'', UsesCount = 5000,
            Category = ''tech'', CreatedAt = 0, UpdatedAt = 100\<rparr>],
        sound_history_table := sound_history_table exampleDB @
          [\<lparr>ID_hist = 5, SoundID = 1, UsesCount_hist = 2700, RecordedAt = 360000000000000\<rparr>],
        sound_history_seq := 5\<rparr>)"
  by (simp add: SaveSoundWithHistory_def GetSoundByURL_def QueryRow_Scan_def driver_call_def
      time_Now_def UpdateSound_def SaveSoundHistory_def exampleDB_def knownObservation_def
      max_int64_def Let_def)

lemma example_save_new:
  "SaveSoundWithHistory newObservation exampleDB =
     (Returns (newObservation\<lparr>ID := 4, CreatedAt := 360000000000000,
                 UpdatedAt := 360000000000000\<rparr>, None),
      exampleDB\<lparr>sounds_table := sounds_table exampleDB @
          [\<lparr>ID = 4, Title = ''T4'', Author = ''A4'', URL = ''u4'', UsesCount = 700,
            Category = ''tech'', CreatedAt = 360000000000000, UpdatedAt = 360000000000000\<rparr>],
        sounds_seq := 4,
        sound_history_table := sound_history_table exampleDB @
          [\<lparr>ID_hist = 5, SoundID = 4, UsesCount_hist = 700, RecordedAt = 360000000000000\<rparr>],
        sound_history_seq := 5\<rparr>)"
  by (simp add: SaveSoundWithHistory_def GetSoundByURL_def QueryRow_Scan_def driver_call_def
      time_Now_def SaveSound_def SaveSoundHistory_def exampleDB_def newObservation_def
      max_int64_def Let_def)


lemma saveSounds_distinct:
  assumes "distinct (map URL (sounds_table db))"
  shows "distinct (map URL (sounds_table (snd (saveSounds observations db))))"
  using assms
proof (induction observations arbitrary: db)
  case Nil
  then show ?case by simp
next
  case (Cons sound rest)
  obtain res db' where s: "SaveSoundWithHistory sound db = (res, db')" by (metis prod.exhaust)
  have d: "distinct (map URL (sounds_table db'))"
    using SaveSoundWithHistory_distinct[OF Cons.prems, of sound] s by simp
  show ?case
  proof (cases res)
    case (Returns x)
    then show ?thesis using s Cons.IH[OF d] by simp
  next
    case Panics
    then show ?thesis using s d by simp
  qed
qed

text \<open>
  C3: with at most one item per url to start with (as in the empty database), there is
  at most one item per url after any sequence of \<open>SaveSoundWithHistory\<close> calls, whatever
  fails on the way, and a call for an url that has its item adds no item. No call panics.
  A call that returns nil has appended exactly one snapshot, of the item and with the
  observed count, and the item has that count; a call returns nil whenever no driver call
  fails and rowids are left.
\<close>

theorem one_item_per_url:
  assumes "distinct (map URL (sounds_table db))"
  shows "distinct (map URL (sounds_table (snd (saveSounds observations db)))) \<and>
         distinct (map URL (sounds_table (snd (SaveSoundWithHistory sound db)))) \<and>
         (URL sound \<in> URL ` set (sounds_table db) \<longrightarrow>
            map URL (sounds_table (snd (SaveSoundWithHistory sound db))) =
              map URL (sounds_table db)) \<and>
         fst (SaveSoundWithHistory sound db) \<noteq> Panics \<and>
         (\<forall>sound' db'. SaveSoundWithHistory sound db = (Returns (sound', None), db') \<longrightarrow>
            (\<exists>h. sound_history_table db' = sound_history_table db @ [h] \<and>
                 SoundID h = ID sound' \<and> UsesCount_hist h = UsesCount sound) \<and>
            (\<exists>row \<in> set (sounds_table db').
                 URL row = URL sound \<and> ID row = ID sound' \<and> UsesCount row = UsesCount sound)) \<and>
         (faults db = [] \<and> sounds_seq db \<noteq> max_int64 \<and> sound_history_seq db \<noteq> max_int64 \<longrightarrow>
            (\<exists>sound' db'. SaveSoundWithHistory sound db = (Returns (sound', None), db')))"
  using saveSounds_distinct[OF assms] SaveSoundWithHistory_distinct[OF assms]
    SaveSoundWithHistory_known_url SaveSoundWithHistory_no_panic
    SaveSoundWithHistory_success SaveSoundWithHistory_quiet
  by (intro conjI allI impI) blast+


lemma example_distinct: "distinct (map URL (sounds_table exampleDB))"
  by (simp add: exampleDB_def)

lemma example_repeat:
  "map URL (sounds_table (snd (saveSounds [knownObservation, knownObservation] exampleDB))) =
     [''u1'', ''u2'', ''u3''] \<and>
   map UsesCount_hist
     (sound_history_table (snd (saveSounds [knownObservation, knownObservation] exampleDB))) =
     [1000, 0, 100, 2600, 2700, 2700]"
  by (simp add: example_save_known)
     (simp add: SaveSoundWithHistory_def GetSoundByURL_def QueryRow_Scan_def driver_call_def
      time_Now_def UpdateSound_def SaveSoundHistory_def exampleDB_def knownObservation_def
      max_int64_def Let_def)

theorem one_item_per_url_witness:
  "distinct (map URL (sounds_table exampleDB)) \<and>
   URL knownObservation \<in> URL ` set (sounds_table exampleDB) \<and>
   faults exampleDB = [] \<and> sounds_seq exampleDB \<noteq> max_int64 \<and>
   sound_history_seq exampleDB \<noteq> max_int64 \<and>
   distinct (map URL (sounds_table (snd (saveSounds [knownObservation, knownObservation] exampleDB)))) \<and>
   map URL (sounds_table (snd (saveSounds [knownObservation, knownObservation] exampleDB))) =
     [''u1'', ''u2'', ''u3''] \<and>
   map URL (sounds_table (snd (SaveSoundWithHistory knownObservation exampleDB))) =
     map URL (sounds_table exampleDB) \<and>
   fst (SaveSoundWithHistory knownObservation exampleDB) =
     Returns (knownObservation\<lparr>ID := 1, UpdatedAt := 360000000000000\<rparr>, None) \<and>
   sound_history_table (snd (SaveSoundWithHistory knownObservation exampleDB)) =
     sound_history_table exampleDB @
       [\<lparr>ID_hist = 5, SoundID = 1, UsesCount_hist = 2700, RecordedAt = 360000000000000\<rparr>]"
proof -
  have a: "URL knownObservation \<in> URL ` set (sounds_table exampleDB)"
    by (simp add: exampleDB_def knownObservation_def)
  have b: "faults exampleDB = []" "sounds_seq exampleDB \<noteq> max_int64"
    "sound_history_seq exampleDB \<noteq> max_int64"
    by (simp_all add: exampleDB_def max_int64_def)
  note t = one_item_per_url[OF example_distinct, of "[knownObservation, knownObservation]"
      knownObservation]
  have c: "distinct (map URL (sounds_table
      (snd (saveSounds [knownObservation, knownObservation] exampleDB))))"
    using t by (rule conjunct1)
  have d: "map URL (sounds_table (snd (SaveSoundWithHistory knownObservation exampleDB))) =
     map URL (sounds_table exampleDB)"
    using t a by blast
  have e: "fst (SaveSoundWithHistory knownObservation exampleDB) =
     Returns (knownObservation\<lparr>ID := 1, UpdatedAt := 360000000000000\<rparr>, None)"
    "sound_history_table (snd (SaveSoundWithHistory knownObservation exampleDB)) =
     sound_history_table exampleDB @
       [\<lparr>ID_hist = 5, SoundID = 1, UsesCount_hist = 2700, RecordedAt = 360000000000000\<rparr>]"
    by (simp_all add: example_save_known)
  show ?thesis
    by (intro conjI example_distinct a b c d e conjunct1[OF example_repeat])
qed

text \<open>
  C9: when the first lookup of \<open>SaveSoundWithHistory\<close> fails, the failure is not returned.
  The call goes on exactly as after a lookup that found nothing: for an url without an
  item it is the same call, and (with no further failure and rowids left) it returns nil
  and has inserted the sound; for an url that has its item it attempts the INSERT as well,
  and what it returns is the error of the UNIQUE constraint.
\<close>

theorem lookup_failure_not_returned:
  assumes "faults db = Some msg # fs"
  shows "GetSoundByURL (URL sound) db =
           ((None, Some (Errorf ''failed to get sound'' (Driver msg))), db\<lparr>faults := fs\<rparr>) \<and>
         (URL sound \<notin> URL ` set (sounds_table db) \<longrightarrow>
            SaveSoundWithHistory sound db =
              SaveSoundWithHistory sound (db\<lparr>faults := None # fs\<rparr>)) \<and>
         (URL sound \<notin> URL ` set (sounds_table db) \<and> fs = [] \<and>
          sounds_seq db \<noteq> max_int64 \<and> sound_history_seq db \<noteq> max_int64 \<longrightarrow>
            (\<exists>sound' db'. SaveSoundWithHistory sound db = (Returns (sound', None), db') \<and>
               sounds_table db' = sounds_table db @ [sound'])) \<and>
         (URL sound \<in> URL ` set (sounds_table db) \<and> (fs = [] \<or> hd fs = None) \<longrightarrow>
            (\<exists>sound' db'. SaveSoundWithHistory sound db =
               (Returns (sound', Some (Errorf ''failed to save sound''
                  (Driver ''UNIQUE constraint failed: sounds.url''))), db') \<and>
               sounds_table db' = sounds_table db \<and>
               sound_history_table db' = sound_history_table db))"
proof (intro conjI impI)
  show g: "GetSoundByURL (URL sound) db =
      ((None, Some (Errorf ''failed to get sound'' (Driver msg))), db\<lparr>faults := fs\<rparr>)"
    using assms by (simp add: GetSoundByURL_def QueryRow_Scan_def driver_call_def)
  show "SaveSoundWithHistory sound db = SaveSoundWithHistory sound (db\<lparr>faults := None # fs\<rparr>)"
    if "URL sound \<notin> URL ` set (sounds_table db)"
  proof -
    have "filter (\<lambda>r. URL r = URL sound) (sounds_table db) = []"
      using that by (force simp: filter_empty_conv image_iff)
    then have "GetSoundByURL (URL sound) (db\<lparr>faults := None # fs\<rparr>) =
        ((None, None), db\<lparr>faults := fs\<rparr>)"
      by (simp add: GetSoundByURL_def QueryRow_Scan_def driver_call_def)
    with g show ?thesis by (simp add: SaveSoundWithHistory_def)
  qed
  show "\<exists>sound' db'. SaveSoundWithHistory sound db = (Returns (sound', None), db') \<and>
               sounds_table db' = sounds_table db @ [sound']"
    if "URL sound \<notin> URL ` set (sounds_table db) \<and> fs = [] \<and>
        sounds_seq db \<noteq> max_int64 \<and> sound_history_seq db \<noteq> max_int64"
    using SaveSoundWithHistory_create[OF g] that by simp
  show "\<exists>sound' db'. SaveSoundWithHistory sound db =
               (Returns (sound', Some (Errorf ''failed to save sound''
                  (Driver ''UNIQUE constraint failed: sounds.url''))), db') \<and>
               sounds_table db' = sounds_table db \<and>
               sound_history_table db' = sound_history_table db"
    if "URL sound \<in> URL ` set (sounds_table db) \<and> (fs = [] \<or> hd fs = None)"
  proof -
    obtain t1 db2 where t1: "time_Now (db\<lparr>faults := fs\<rparr>) = (t1, db2)" by (metis prod.exhaust)
    obtain t2 db3 where t2: "time_Now db2 = (t2, db3)" by (metis prod.exhaust)
    have same: "sounds_table db3 = sounds_table db" "faults db3 = fs"
      "sound_history_table db3 = sound_history_table db"
      using time_Now_eq[OF t1] time_Now_eq[OF t2] by simp_all
    obtain f db4 where d: "driver_call db3 = (f, db4)" by (metis prod.exhaust)
    have f: "f = None" using driver_call_eq[OF d] same(2) that by auto
    have "SaveSound (sound\<lparr>CreatedAt := t1, UpdatedAt := t2\<rparr>) db3 =
        ((sound\<lparr>CreatedAt := t1, UpdatedAt := t2\<rparr>,
          Some (Errorf ''failed to save sound'' (Driver ''UNIQUE constraint failed: sounds.url''))),
         db4)"
      using d f driver_call_eq[OF d] same(1) that by (simp add: SaveSound_def)
    then have "SaveSoundWithHistory sound db =
        (Returns (sound\<lparr>CreatedAt := t1, UpdatedAt := t2\<rparr>,
           Some (Errorf ''failed to save sound''
             (Driver ''UNIQUE constraint failed: sounds.url''))), db4)"
      using g t1 t2 by (simp add: SaveSoundWithHistory_def)
    then show ?thesis using driver_call_eq[OF d] same by auto
  qed
qed

theorem lookup_failure_not_returned_witness:
  "faults faultyDB = [Some ''disk I/O error''] \<and>
   URL newObservation \<notin> URL ` set (sounds_table faultyDB) \<and>
   sounds_seq faultyDB \<noteq> max_int64 \<and> sound_history_seq faultyDB \<noteq> max_int64 \<and>
   URL knownObservation \<in> URL ` set (sounds_table faultyDB) \<and>
   GetSoundByURL (URL knownObservation) faultyDB =
     ((None, Some (Errorf ''failed to get sound'' (Driver ''disk I/O error''))),
      faultyDB\<lparr>faults := []\<rparr>) \<and>
   SaveSoundWithHistory newObservation faultyDB =
     SaveSoundWithHistory newObservation (faultyDB\<lparr>faults := [None]\<rparr>) \<and>
   (\<exists>sound' db'. SaveSoundWithHistory newObservation faultyDB = (Returns (sound', None), db') \<and>
      sounds_table db' = sounds_table faultyDB @ [sound']) \<and>
   (\<exists>sound' db'. SaveSoundWithHistory knownObservation faultyDB =
      (Returns (sound', Some (Errorf ''failed to save sound''
         (Driver ''UNIQUE constraint failed: sounds.url''))), db') \<and>
      sounds_table db' = sounds_table faultyDB \<and>
      sound_history_table db' = sound_history_table faultyDB)"
proof -
  have f: "faults faultyDB = Some ''disk I/O error'' # []" by (simp add: faultyDB_def)
  have a: "URL newObservation \<notin> URL ` set (sounds_table faultyDB)"
    "URL knownObservation \<in> URL ` set (sounds_table faultyDB)"
    "sounds_seq faultyDB \<noteq> max_int64" "sound_history_seq faultyDB \<noteq> max_int64"
    by (simp_all add: faultyDB_def exampleDB_def newObservation_def knownObservation_def
        max_int64_def)
  note n = lookup_failure_not_returned[OF f, of newObservation]
  note k = lookup_failure_not_returned[OF f, of knownObservation]
  have f': "faults faultyDB = [Some ''disk I/O error'']" by (simp add: faultyDB_def)
  have g: "GetSoundByURL (URL knownObservation) faultyDB =
     ((None, Some (Errorf ''failed to get sound'' (Driver ''disk I/O error''))),
      faultyDB\<lparr>faults := []\<rparr>)"
    using k by (rule conjunct1)
  have same: "SaveSoundWithHistory newObservation faultyDB =
     SaveSoundWithHistory newObservation (faultyDB\<lparr>faults := [None]\<rparr>)"
    using n a(1) by blast
  have ins: "\<exists>sound' db'. SaveSoundWithHistory newObservation faultyDB =
       (Returns (sound', None), db') \<and> sounds_table db' = sounds_table faultyDB @ [sound']"
    using n a(1,3,4) by blast
  have uniq: "\<exists>sound' db'. SaveSoundWithHistory knownObservation faultyDB =
      (Returns (sound', Some (Errorf ''failed to save sound''
         (Driver ''UNIQUE constraint failed: sounds.url''))), db') \<and>
      sounds_table db' = sounds_table faultyDB \<and>
      sound_history_table db' = sound_history_table faultyDB"
    using k a(2) by blast
  show ?thesis
    by (intro conjI f' a g same ins uniq)
qed

section \<open>GetSoundHistoryByTime\<close>

lemma time_Now_driver_call: "fst (driver_call (snd (time_Now db))) = fst (driver_call db)"
  by (auto simp: time_Now_def driver_call_def split: list.splits)

lemma QueryRow_Scan_eq:
  "fst (QueryRow_Scan rows db) =
     (case fst (driver_call db) of
        Some msg \<Rightarrow> (None, Some (Driver msg))
      | None \<Rightarrow> (case rows of [] \<Rightarrow> (None, Some ErrNoRows) | row # _ \<Rightarrow> (Some row, None)))"
  by (simp add: QueryRow_Scan_def split: prod.splits option.splits list.splits)

lemma GetSoundHistoryByTime_result:
  "fst (GetSoundHistoryByTime soundID hoursAgo db) =
     (case fst (driver_call db) of
        Some msg \<Rightarrow> (None, Some (Errorf ''failed to get sound history'' (Driver msg)))
      | None \<Rightarrow>
          (case sort_key RecordedAt
                  (filter (\<lambda>h. SoundID h = soundID \<and>
                                cutoffTime (fst (time_Now db)) hoursAgo \<le> RecordedAt h)
                     (sound_history_table db)) of
             [] \<Rightarrow> (None, None)
           | h # _ \<Rightarrow> (Some h, None)))"
proof -
  obtain t db1 where t: "time_Now db = (t, db1)" by (metis prod.exhaust)
  have d: "fst (driver_call db1) = fst (driver_call db)"
    using time_Now_driver_call[of db] t by simp
  have tab: "sound_history_table db1 = sound_history_table db" using time_Now_eq[OF t] by simp
  obtain r db2 where q: "QueryRow_Scan (sort_key RecordedAt
                  (filter (\<lambda>h. SoundID h = soundID \<and> cutoffTime t hoursAgo \<le> RecordedAt h)
                     (sound_history_table db))) db1 = (r, db2)"
    by (metis prod.exhaust)
  have "r = fst (QueryRow_Scan (sort_key RecordedAt
                  (filter (\<lambda>h. SoundID h = soundID \<and> cutoffTime t hoursAgo \<le> RecordedAt h)
                     (sound_history_table db))) db1)"
    using q by simp
  then show ?thesis
    unfolding QueryRow_Scan_eq d
    using t q tab
    by (auto simp: GetSoundHistoryByTime_def split: option.splits list.splits)
qed

lemma sort_key_first:
  assumes "sort_key f xs = y # ys"
  shows "y \<in> set xs" "\<forall>x \<in> set xs. f y \<le> f x"
proof -
  have s: "set (sort_key f xs) = set xs" by simp
  then show "y \<in> set xs" unfolding assms by auto
  have "sorted (map f (sort_key f xs))" by (rule sorted_sort_key)
  then have "\<forall>x \<in> set ys. f y \<le> f x" unfolding assms by simp
  then show "\<forall>x \<in> set xs. f y \<le> f x" using s unfolding assms by auto
qed

lemma cutoffTime_hours:
  assumes "- 2562047 \<le> sint hoursAgo" "sint hoursAgo \<le> 2562047"
  shows "cutoffTime t hoursAgo = t - sint hoursAgo * 3600000000000"
proof -
  have r: "- (2 ^ 63) \<le> sint hoursAgo * 3600000000000" "sint hoursAgo * 3600000000000 < 2 ^ 63"
    using assms by simp_all
  have m: "sint (hoursAgo * 3600000000000) = sint hoursAgo * 3600000000000"
    using r by (simp add: sint_word_ariths signed_take_bit_int_eq_self)
  have "sint (- (hoursAgo * 3600000000000)) = - (sint hoursAgo * 3600000000000)"
    using assms by (simp add: sint_word_ariths(4) m signed_take_bit_int_eq_self)
  then show ?thesis by (simp add: cutoffTime_def)
qed


text \<open>
  C4: \<open>GetSoundHistoryByTime\<close> looks at the snapshots of the sound recorded at or after
  the cutoff. When the driver call goes through, it returns the nil pointer with a nil
  error if there is none, and otherwise one of them with the smallest \<open>RecordedAt\<close>, with
  a nil error; only a driver failure makes it return an error. The cutoff is the reading
  of the clock minus \<open>hoursAgo\<close> hours, for every number of hours whose nanoseconds fit
  an \<^verbatim>\<open>int64\<close>.
\<close>

theorem earliest_snapshot_since:
  fixes soundID hoursAgo :: int64 and db :: database
  defines "cutoff \<equiv> cutoffTime (fst (time_Now db)) hoursAgo"
  defines "window \<equiv> filter (\<lambda>h. SoundID h = soundID \<and> cutoff \<le> RecordedAt h)
                       (sound_history_table db)"
  shows "(fst (driver_call db) = None \<and> window = [] \<longrightarrow>
            fst (GetSoundHistoryByTime soundID hoursAgo db) = (None, None)) \<and>
         (fst (driver_call db) = None \<and> window \<noteq> [] \<longrightarrow>
            (\<exists>h \<in> set window.
               fst (GetSoundHistoryByTime soundID hoursAgo db) = (Some h, None) \<and>
               (\<forall>h' \<in> set window. RecordedAt h \<le> RecordedAt h'))) \<and>
         (\<forall>msg. fst (driver_call db) = Some msg \<longrightarrow>
            fst (GetSoundHistoryByTime soundID hoursAgo db) =
              (None, Some (Errorf ''failed to get sound history'' (Driver msg)))) \<and>
         (- 2562047 \<le> sint hoursAgo \<and> sint hoursAgo \<le> 2562047 \<longrightarrow>
            cutoff = fst (time_Now db) - sint hoursAgo * 3600000000000)"
proof (intro conjI impI allI)
  note r0 = GetSoundHistoryByTime_result[of soundID hoursAgo db, folded cutoff_def]
  note r = r0[folded window_def]
  show "fst (GetSoundHistoryByTime soundID hoursAgo db) = (None, None)"
    if "fst (driver_call db) = None \<and> window = []"
    using that unfolding r by simp
  show "\<exists>h \<in> set window.
          fst (GetSoundHistoryByTime soundID hoursAgo db) = (Some h, None) \<and>
          (\<forall>h' \<in> set window. RecordedAt h \<le> RecordedAt h')"
    if "fst (driver_call db) = None \<and> window \<noteq> []"
  proof -
    from that have "sort_key RecordedAt window \<noteq> []"
      by (metis length_0_conv length_sort)
    then obtain h rest where s: "sort_key RecordedAt window = h # rest"
      by (cases "sort_key RecordedAt window") auto
    from sort_key_first[OF s] that show ?thesis unfolding r s by simp
  qed
  show "fst (GetSoundHistoryByTime soundID hoursAgo db) =
          (None, Some (Errorf ''failed to get sound history'' (Driver msg)))"
    if "fst (driver_call db) = Some msg" for msg
    using that unfolding r by simp
  show "cutoff = fst (time_Now db) - sint hoursAgo * 3600000000000"
    if "- 2562047 \<le> sint hoursAgo \<and> sint hoursAgo \<le> 2562047"
    using that unfolding cutoff_def by (simp add: cutoffTime_hours)
qed

theorem earliest_snapshot_since_witness:
  "fst (driver_call exampleDB) = None \<and>
   fst (time_Now exampleDB) = 360000000000000 \<and>
   cutoffTime 360000000000000 24 = 360000000000000 - 24 * 3600000000000 \<and>
   filter (\<lambda>h. SoundID h = 3 \<and> cutoffTime (fst (time_Now exampleDB)) 24 \<le> RecordedAt h)
     (sound_history_table exampleDB) = [] \<and>
   fst (GetSoundHistoryByTime 3 24 exampleDB) = (None, None) \<and>
   filter (\<lambda>h. SoundID h = 1 \<and> cutoffTime (fst (time_Now exampleDB)) 24 \<le> RecordedAt h)
     (sound_history_table exampleDB) =
     [\<lparr>ID_hist = 1, SoundID = 1, UsesCount_hist = 1000, RecordedAt = 288000000000000\<rparr>,
      \<lparr>ID_hist = 4, SoundID = 1, UsesCount_hist = 2600, RecordedAt = 360000000000000\<rparr>] \<and>
   fst (GetSoundHistoryByTime 1 24 exampleDB) =
     (Some \<lparr>ID_hist = 1, SoundID = 1, UsesCount_hist = 1000, RecordedAt = 288000000000000\<rparr>,
      None) \<and>
   fst (driver_call faultyDB) = Some ''disk I/O error'' \<and>
   fst (GetSoundHistoryByTime 1 24 faultyDB) =
     (None, Some (Errorf ''failed to get sound history'' (Driver ''disk I/O error'')))"
proof -
  have d: "fst (driver_call exampleDB) = None" by (simp add: driver_call_def exampleDB_def)
  have t: "fst (time_Now exampleDB) = 360000000000000" by (simp add: time_Now_def exampleDB_def)
  have c: "cutoffTime 360000000000000 24 = 360000000000000 - 24 * 3600000000000"
    by (simp add: example_cutoff)
  have w3: "filter (\<lambda>h. SoundID h = 3 \<and> cutoffTime (fst (time_Now exampleDB)) 24 \<le> RecordedAt h)
     (sound_history_table exampleDB) = []"
    unfolding t example_cutoff by (simp add: exampleDB_def)
  have w1: "filter (\<lambda>h. SoundID h = 1 \<and> cutoffTime (fst (time_Now exampleDB)) 24 \<le> RecordedAt h)
     (sound_history_table exampleDB) =
     [\<lparr>ID_hist = 1, SoundID = 1, UsesCount_hist = 1000, RecordedAt = 288000000000000\<rparr>,
      \<lparr>ID_hist = 4, SoundID = 1, UsesCount_hist = 2600, RecordedAt = 360000000000000\<rparr>]"
    unfolding t example_cutoff by (simp add: exampleDB_def)
  have r3: "fst (GetSoundHistoryByTime 3 24 exampleDB) = (None, None)"
    using earliest_snapshot_since[of exampleDB 3 24] d w3 by blast
  have r1: "fst (GetSoundHistoryByTime 1 24 exampleDB) =
     (Some \<lparr>ID_hist = 1, SoundID = 1, UsesCount_hist = 1000, RecordedAt = 288000000000000\<rparr>,
      None)"
    by (simp add: example_history_1)
  have f: "fst (driver_call faultyDB) = Some ''disk I/O error''"
    by (simp add: driver_call_def faultyDB_def)
  have rf: "fst (GetSoundHistoryByTime 1 24 faultyDB) =
     (None, Some (Errorf ''failed to get sound history'' (Driver ''disk I/O error'')))"
    using earliest_snapshot_since[of faultyDB 1 24] f by blast
  show ?thesis by (intro conjI d t c w3 w1 r3 r1 f rf)
qed

section \<open>GetAllSoundsWithHistory\<close>

lemma cutoffTime_mono: "t \<le> t' \<Longrightarrow> cutoffTime t hoursAgo \<le> cutoffTime t' hoursAgo"
  by (simp add: cutoffTime_def)

lemma driver_call_head:
  "fst (driver_call db) = (case faults db of [] \<Rightarrow> None | f # _ \<Rightarrow> f)"
  by (simp add: driver_call_def split: list.splits)

lemma GetSoundHistoryByTime_state:
  assumes "GetSoundHistoryByTime soundID hoursAgo db = (r, db')"
  shows "sound_history_table db' = sound_history_table db"
    and "now db' = fst (time_Now db)" and "now db \<le> now db'"
    and "ticks db = [] \<Longrightarrow> ticks db' = [] \<and> now db' = now db"
    and "faults db' = tl (faults db)"
proof -
  obtain t db1 where t: "time_Now db = (t, db1)" by (metis prod.exhaust)
  obtain q db2 where q: "QueryRow_Scan (sort_key RecordedAt
                  (filter (\<lambda>h. SoundID h = soundID \<and> cutoffTime t hoursAgo \<le> RecordedAt h)
                     (sound_history_table db1))) db1 = (q, db2)"
    by (metis prod.exhaust)
  have db': "db' = db2"
    using assms t q by (auto simp: GetSoundHistoryByTime_def split: prod.splits option.splits if_splits)
  obtain f where d: "driver_call db1 = (f, db2)"
    using q by (auto simp: QueryRow_Scan_def split: prod.splits option.splits list.splits)
  have q1: "ticks db = [] \<Longrightarrow> ticks db1 = [] \<and> now db1 = now db"
    using t by (auto simp: time_Now_def split: list.splits)
  have q2: "faults db2 = tl (faults db1)"
    using d by (auto simp: driver_call_def split: list.splits)
  show "sound_history_table db' = sound_history_table db"
    and "now db' = fst (time_Now db)" and "now db \<le> now db'"
    and "ticks db = [] \<Longrightarrow> ticks db' = [] \<and> now db' = now db"
    and "faults db' = tl (faults db)"
    using time_Now_eq[OF t] driver_call_eq[OF d] t q1 q2 unfolding db' by auto
qed

lemma loadHistory_fault:
  assumes "faults db = replicate k None @ Some msg # fs" "k < length sounds"
  shows "fst (loadHistory sounds hoursAgo historyMap db) =
           (Map.empty, Some (Errorf ''failed to get sound history'' (Driver msg)))"
  using assms
proof (induction sounds arbitrary: k historyMap db)
  case Nil
  then show ?case by simp
next
  case (Cons sound rest)
  obtain history err db1 where
    g: "GetSoundHistoryByTime (ID sound) hoursAgo db = ((history, err), db1)"
    by (metis prod.exhaust)
  note r = GetSoundHistoryByTime_result[of "ID sound" hoursAgo db, unfolded g driver_call_head]
  show ?case
  proof (cases k)
    case 0
    then have "err = Some (Errorf ''failed to get sound history'' (Driver msg))"
      using r Cons.prems(1) by simp
    then show ?thesis using g by simp
  next
    case (Suc k')
    then have e: "err = None"
      using r Cons.prems(1) by (auto split: list.splits)
    have f1: "faults db1 = replicate k' None @ Some msg # fs"
      using GetSoundHistoryByTime_state(5)[OF g] Cons.prems(1) Suc by simp
    have k': "k' < length rest" using Cons.prems(2) Suc by simp
    show ?thesis
      using g e Cons.IH[OF f1 k'] by (simp split: option.splits)
  qed
qed

lemma scanRows_state:
  "scanRows rows acc db = (sounds, db') \<Longrightarrow>
     sound_history_table db' = sound_history_table db \<and> now db' = now db \<and>
     ticks db' = ticks db"
  by (induction rows arbitrary: acc db)
     (auto split: prod.splits option.splits dest!: driver_call_eq)

lemma GetSoundsByCategory_state:
  assumes "GetSoundsByCategory category limit db = (r, db')"
  shows "sound_history_table db' = sound_history_table db" "now db' = now db"
    "ticks db' = ticks db"
  using assms
  by (auto simp: GetSoundsByCategory_def Let_def
      split: prod.splits option.splits if_splits dest!: driver_call_eq scanRows_state)

lemma loadHistory_quiet:
  assumes "\<forall>f \<in> set (faults db). f = None"
  shows "\<exists>m db'. loadHistory sounds hoursAgo m0 db = ((m, None), db') \<and>
           (\<forall>k. m k = m0 k \<or>
                (\<exists>h. m k = Some (Some h) \<and> k \<in> ID ` set sounds \<and>
                     h \<in> set (sound_history_table db) \<and> SoundID h = k \<and>
                     cutoffTime (now db) hoursAgo \<le> RecordedAt h)) \<and>
           (ticks db = [] \<longrightarrow>
              (\<forall>sound \<in> set sounds.
                 (\<exists>h \<in> set (sound_history_table db).
                    SoundID h = ID sound \<and> cutoffTime (now db) hoursAgo \<le> RecordedAt h) \<longrightarrow>
                 (\<exists>h. m (ID sound) = Some (Some h))))"
  using assms
proof (induction sounds arbitrary: m0 db)
  case Nil
  then show ?case by simp
next
  case (Cons sound rest)
  let ?t = "fst (time_Now db)"
  let ?window = "filter (\<lambda>h. SoundID h = ID sound \<and> cutoffTime ?t hoursAgo \<le> RecordedAt h)
                   (sound_history_table db)"
  obtain history err db1 where
    g: "GetSoundHistoryByTime (ID sound) hoursAgo db = ((history, err), db1)"
    by (metis prod.exhaust)
  note st = GetSoundHistoryByTime_state[OF g]
  have head: "fst (driver_call db) = None"
    using Cons.prems by (auto simp: driver_call_head split: list.splits)
  note r = GetSoundHistoryByTime_result[of "ID sound" hoursAgo db, unfolded g head]
  have e: "err = None" using r by (auto split: list.splits)
  have hist: "history = (case sort_key RecordedAt ?window of [] \<Rightarrow> None | h # _ \<Rightarrow> Some h)"
    using r by (auto split: list.splits)
  have q1: "\<forall>f \<in> set (faults db1). f = None"
    using Cons.prems st(5) by (cases "faults db") auto
  have mono: "cutoffTime (now db) hoursAgo \<le> cutoffTime (now db1) hoursAgo"
    using st(3) by (rule cutoffTime_mono)
  define m1 where "m1 = (case history of Some h \<Rightarrow> m0(ID sound \<mapsto> Some h) | None \<Rightarrow> m0)"
  have step: "loadHistory (sound # rest) hoursAgo m0 db = loadHistory rest hoursAgo m1 db1"
    using g e by (simp add: m1_def split: option.splits)
  from Cons.IH[OF q1, of m1] obtain m db' where
    ih: "loadHistory rest hoursAgo m1 db1 = ((m, None), db')"
      "\<forall>k. m k = m1 k \<or>
          (\<exists>h. m k = Some (Some h) \<and> k \<in> ID ` set rest \<and>
               h \<in> set (sound_history_table db1) \<and> SoundID h = k \<and>
               cutoffTime (now db1) hoursAgo \<le> RecordedAt h)"
      "ticks db1 = [] \<longrightarrow>
          (\<forall>s \<in> set rest.
             (\<exists>h \<in> set (sound_history_table db1).
                SoundID h = ID s \<and> cutoffTime (now db1) hoursAgo \<le> RecordedAt h) \<longrightarrow>
             (\<exists>h. m (ID s) = Some (Some h)))"
    by blast
  have m1: "m1 k = m0 k \<or>
      (\<exists>h. m1 k = Some (Some h) \<and> k = ID sound \<and> h \<in> set (sound_history_table db) \<and>
           SoundID h = k \<and> cutoffTime (now db) hoursAgo \<le> RecordedAt h)" for k
  proof (cases "sort_key RecordedAt ?window")
    case Nil
    then show ?thesis by (simp add: m1_def hist)
  next
    case (Cons h hs)
    from sort_key_first(1)[OF Cons] have "h \<in> set (sound_history_table db)"
      "SoundID h = ID sound" "cutoffTime ?t hoursAgo \<le> RecordedAt h"
      by simp_all
    moreover have "cutoffTime (now db) hoursAgo \<le> cutoffTime ?t hoursAgo"
      using mono st(2) by simp
    ultimately show ?thesis by (auto simp: m1_def hist Cons)
  qed
  have a: "m k = m0 k \<or>
      (\<exists>h. m k = Some (Some h) \<and> k \<in> ID ` set (sound # rest) \<and>
           h \<in> set (sound_history_table db) \<and> SoundID h = k \<and>
           cutoffTime (now db) hoursAgo \<le> RecordedAt h)" for k
  proof -
    from ih(2) have "m k = m1 k \<or>
          (\<exists>h. m k = Some (Some h) \<and> k \<in> ID ` set rest \<and>
               h \<in> set (sound_history_table db1) \<and> SoundID h = k \<and>
               cutoffTime (now db1) hoursAgo \<le> RecordedAt h)"
      by blast
    then show ?thesis
    proof
      assume "m k = m1 k"
      with m1[of k] show ?thesis by auto
    next
      assume "\<exists>h. m k = Some (Some h) \<and> k \<in> ID ` set rest \<and>
               h \<in> set (sound_history_table db1) \<and> SoundID h = k \<and>
               cutoffTime (now db1) hoursAgo \<le> RecordedAt h"
      then obtain h where "m k = Some (Some h)" "k \<in> ID ` set rest"
        "h \<in> set (sound_history_table db)" "SoundID h = k"
        "cutoffTime (now db1) hoursAgo \<le> RecordedAt h"
        unfolding st(1) by blast
      with mono show ?thesis by auto
    qed
  qed
  have b: "\<exists>h. m (ID s) = Some (Some h)"
    if q: "ticks db = []" and s: "s \<in> set (sound # rest)"
      and w: "\<exists>h \<in> set (sound_history_table db).
                SoundID h = ID s \<and> cutoffTime (now db) hoursAgo \<le> RecordedAt h"
    for s
  proof (cases "s \<in> set rest")
    case True
    have "ticks db1 = []" "now db1 = now db" using st(4)[OF q] by simp_all
    with ih(3) have "\<forall>s \<in> set rest.
             (\<exists>h \<in> set (sound_history_table db).
                SoundID h = ID s \<and> cutoffTime (now db) hoursAgo \<le> RecordedAt h) \<longrightarrow>
             (\<exists>h. m (ID s) = Some (Some h))"
      unfolding st(1) by simp
    with True w show ?thesis by blast
  next
    case False
    then have s': "s = sound" using s by simp
    have t: "?t = now db" using st(2,4) q by simp
    from w obtain h0 where h0: "h0 \<in> set (sound_history_table db)" "SoundID h0 = ID sound"
      "cutoffTime (now db) hoursAgo \<le> RecordedAt h0"
      unfolding s' by blast
    have "h0 \<in> set ?window" unfolding t using h0 by simp
    then have "h0 \<in> set (sort_key RecordedAt ?window)" by (simp only: set_sort)
    then obtain h hs where "sort_key RecordedAt ?window = h # hs"
      by (cases "sort_key RecordedAt ?window") simp_all
    then have "history = Some h" by (simp add: hist)
    then have "m1 (ID sound) = Some (Some h)" by (simp add: m1_def)
    moreover have "m (ID sound) = m1 (ID sound) \<or> (\<exists>h'. m (ID sound) = Some (Some h'))"
      using ih(2)[rule_format, of "ID sound"] by (elim disjE exE conjE) simp_all
    ultimately have "\<exists>h. m (ID sound) = Some (Some h)" by (elim disjE exE) simp_all
    then show ?thesis by (simp only: s')
  qed
  have "loadHistory rest hoursAgo m1 db1 = ((m, None), db') \<and>
           (\<forall>k. m k = m0 k \<or>
                (\<exists>h. m k = Some (Some h) \<and> k \<in> ID ` set (sound # rest) \<and>
                     h \<in> set (sound_history_table db) \<and> SoundID h = k \<and>
                     cutoffTime (now db) hoursAgo \<le> RecordedAt h)) \<and>
           (ticks db = [] \<longrightarrow>
              (\<forall>s \<in> set (sound # rest).
                 (\<exists>h \<in> set (sound_history_table db).
                    SoundID h = ID s \<and> cutoffTime (now db) hoursAgo \<le> RecordedAt h) \<longrightarrow>
                 (\<exists>h. m (ID s) = Some (Some h))))"
  proof (intro conjI allI impI ballI)
    show "loadHistory rest hoursAgo m1 db1 = ((m, None), db')" by (rule ih(1))
    show "m k = m0 k \<or>
      (\<exists>h. m k = Some (Some h) \<and> k \<in> ID ` set (sound # rest) \<and>
           h \<in> set (sound_history_table db) \<and> SoundID h = k \<and>
           cutoffTime (now db) hoursAgo \<le> RecordedAt h)" for k
      by (rule a)
    show "\<exists>h. m (ID s) = Some (Some h)"
      if "ticks db = []" "s \<in> set (sound # rest)"
        "\<exists>h \<in> set (sound_history_table db).
                SoundID h = ID s \<and> cutoffTime (now db) hoursAgo \<le> RecordedAt h"
      for s
      using that by (rule b)
  qed
  then show ?case unfolding step by (intro exI[of _ m] exI[of _ db'])
qed

text \<open>
  C5: take a call of \<open>GetAllSoundsWithHistory\<close> whose query for the sounds succeeds. If no
  later driver call fails, it returns the sounds and a map with a nil error; a sound
  without a snapshot at or after the cutoff has no entry in the map, and (the clock
  standing still during the call) a sound with such a snapshot has one. If the lookup
  for any one sound fails, the call returns that error with no sounds and no map.
\<close>

theorem bulk_load_absence_and_failure:
  assumes "GetSoundsByCategory category 1000 db = ((sounds, None), db1)"
  shows "((\<forall>f \<in> set (faults db1). f = None) \<longrightarrow>
            (\<exists>historyMap db'.
               GetAllSoundsWithHistory category hoursAgo db = ((sounds, historyMap, None), db') \<and>
               (\<forall>sound \<in> set sounds.
                  (\<forall>h \<in> set (sound_history_table db).
                     SoundID h = ID sound \<longrightarrow> RecordedAt h < cutoffTime (now db) hoursAgo) \<longrightarrow>
                  historyMap (ID sound) = None) \<and>
               (ticks db = [] \<longrightarrow>
                  (\<forall>sound \<in> set sounds.
                     (\<exists>h \<in> set (sound_history_table db).
                        SoundID h = ID sound \<and> cutoffTime (now db) hoursAgo \<le> RecordedAt h) \<longrightarrow>
                     (\<exists>h. historyMap (ID sound) = Some (Some h)))))) \<and>
         (\<forall>k msg fs.
            k < length sounds \<and> faults db1 = replicate k None @ Some msg # fs \<longrightarrow>
            fst (GetAllSoundsWithHistory category hoursAgo db) =
              ([], Map.empty, Some (Errorf ''failed to get sound history'' (Driver msg))))"
proof (intro conjI impI allI)
  note st = GetSoundsByCategory_state[OF assms]
  show "\<exists>historyMap db'.
          GetAllSoundsWithHistory category hoursAgo db = ((sounds, historyMap, None), db') \<and>
          (\<forall>sound \<in> set sounds.
             (\<forall>h \<in> set (sound_history_table db).
                SoundID h = ID sound \<longrightarrow> RecordedAt h < cutoffTime (now db) hoursAgo) \<longrightarrow>
             historyMap (ID sound) = None) \<and>
          (ticks db = [] \<longrightarrow>
             (\<forall>sound \<in> set sounds.
                (\<exists>h \<in> set (sound_history_table db).
                   SoundID h = ID sound \<and> cutoffTime (now db) hoursAgo \<le> RecordedAt h) \<longrightarrow>
                (\<exists>h. historyMap (ID sound) = Some (Some h))))"
    if quiet: "\<forall>f \<in> set (faults db1). f = None"
  proof -
    from loadHistory_quiet[OF quiet, of sounds hoursAgo Map.empty] obtain m db' where
      l: "loadHistory sounds hoursAgo Map.empty db1 = ((m, None), db')"
      and i: "\<forall>k. m k = None \<or>
                (\<exists>h. m k = Some (Some h) \<and> k \<in> ID ` set sounds \<and>
                     h \<in> set (sound_history_table db) \<and> SoundID h = k \<and>
                     cutoffTime (now db) hoursAgo \<le> RecordedAt h)"
      and ii: "ticks db = [] \<longrightarrow>
              (\<forall>sound \<in> set sounds.
                 (\<exists>h \<in> set (sound_history_table db).
                    SoundID h = ID sound \<and> cutoffTime (now db) hoursAgo \<le> RecordedAt h) \<longrightarrow>
                 (\<exists>h. m (ID sound) = Some (Some h)))"
      unfolding st by auto
    have g: "GetAllSoundsWithHistory category hoursAgo db = ((sounds, m, None), db')"
      using assms l by (simp add: GetAllSoundsWithHistory_def)
    have absent: "m (ID sound) = None"
      if "\<forall>h \<in> set (sound_history_table db).
            SoundID h = ID sound \<longrightarrow> RecordedAt h < cutoffTime (now db) hoursAgo"
      for sound
    proof (rule ccontr)
      assume "m (ID sound) \<noteq> None"
      with i obtain h where "h \<in> set (sound_history_table db)" "SoundID h = ID sound"
        "cutoffTime (now db) hoursAgo \<le> RecordedAt h"
        by (metis option.distinct(1))
      with that show False by fastforce
    qed
    have A: "\<forall>sound \<in> set sounds.
             (\<forall>h \<in> set (sound_history_table db).
                SoundID h = ID sound \<longrightarrow> RecordedAt h < cutoffTime (now db) hoursAgo) \<longrightarrow>
             m (ID sound) = None"
      using absent by blast
    show ?thesis
      by (intro exI[of _ m] exI[of _ db'] conjI g A ii)
  qed
  show "fst (GetAllSoundsWithHistory category hoursAgo db) =
          ([], Map.empty, Some (Errorf ''failed to get sound history'' (Driver msg)))"
    if "k < length sounds \<and> faults db1 = replicate k None @ Some msg # fs" for k msg fs
  proof -
    obtain m e db' where l: "loadHistory sounds hoursAgo Map.empty db1 = ((m, e), db')"
      by (metis prod.exhaust)
    have "(m, e) = (Map.empty, Some (Errorf ''failed to get sound history'' (Driver msg)))"
      using loadHistory_fault[of db1 k msg fs sounds hoursAgo Map.empty] that l by simp
    then show ?thesis using assms l by (simp add: GetAllSoundsWithHistory_def)
  qed
qed


lemma example_late_fault:
  "GetSoundsByCategory ''tech'' 1000 lateFaultDB =
     ((exampleSounds, None), lateFaultDB\<lparr>faults := [None, Some ''disk I/O error'']\<rparr>)"
  by (simp add: GetSoundsByCategory_def lateFaultDB_def exampleDB_def exampleSounds_def
      driver_call_def)

theorem bulk_load_absence_and_failure_witness:
  "GetSoundsByCategory ''tech'' 1000 exampleDB = ((exampleSounds, None), exampleDB) \<and>
   faults exampleDB = [] \<and> ticks exampleDB = [] \<and>
   fst (GetAllSoundsWithHistory ''tech'' 24 exampleDB) = (exampleSounds, exampleMap, None) \<and>
   exampleMap (ID (exampleSounds ! 2)) = None \<and>
   (\<exists>h. exampleMap (ID (exampleSounds ! 0)) = Some (Some h)) \<and>
   GetSoundsByCategory ''tech'' 1000 lateFaultDB =
     ((exampleSounds, None), lateFaultDB\<lparr>faults := [None, Some ''disk I/O error'']\<rparr>) \<and>
   Suc 0 < length exampleSounds \<and>
   fst (GetAllSoundsWithHistory ''tech'' 24 lateFaultDB) =
     ([], Map.empty, Some (Errorf ''failed to get sound history'' (Driver ''disk I/O error'')))"
proof -
  have f: "faults exampleDB = []" and t: "ticks exampleDB = []"
    by (simp_all add: exampleDB_def)
  have g: "fst (GetAllSoundsWithHistory ''tech'' 24 exampleDB) =
      (exampleSounds, exampleMap, None)"
    by (simp add: example_all)
  note quiet = bulk_load_absence_and_failure[OF example_category, of 24, THEN conjunct1]
  have q: "\<forall>f \<in> set (faults exampleDB). f = None" by (simp add: f)
  from quiet[THEN mp, OF q] obtain historyMap db' where
    h: "GetAllSoundsWithHistory ''tech'' 24 exampleDB = ((exampleSounds, historyMap, None), db')"
    and absent: "\<forall>sound \<in> set exampleSounds.
        (\<forall>h \<in> set (sound_history_table exampleDB).
           SoundID h = ID sound \<longrightarrow> RecordedAt h < cutoffTime (now exampleDB) 24) \<longrightarrow>
        historyMap (ID sound) = None"
    and present: "ticks exampleDB = [] \<longrightarrow>
        (\<forall>sound \<in> set exampleSounds.
           (\<exists>h \<in> set (sound_history_table exampleDB).
              SoundID h = ID sound \<and> cutoffTime (now exampleDB) 24 \<le> RecordedAt h) \<longrightarrow>
           (\<exists>h. historyMap (ID sound) = Some (Some h)))"
    by blast
  have m: "historyMap = exampleMap" using h by (simp add: example_all)
  have n: "now exampleDB = 360000000000000" by (simp add: exampleDB_def)
  have s2: "exampleSounds ! 2 \<in> set exampleSounds" "exampleSounds ! 0 \<in> set exampleSounds"
    by (simp_all add: exampleSounds_def)
  have w2: "\<forall>h \<in> set (sound_history_table exampleDB).
           SoundID h = ID (exampleSounds ! 2) \<longrightarrow> RecordedAt h < cutoffTime (now exampleDB) 24"
    unfolding n example_cutoff by (simp add: exampleDB_def exampleSounds_def)
  have w0: "\<exists>h \<in> set (sound_history_table exampleDB).
           SoundID h = ID (exampleSounds ! 0) \<and> cutoffTime (now exampleDB) 24 \<le> RecordedAt h"
    unfolding n example_cutoff by (simp add: exampleDB_def exampleSounds_def)
  have a: "exampleMap (ID (exampleSounds ! 2)) = None"
    using absent[THEN bspec, OF s2(1), THEN mp, OF w2] unfolding m .
  have p: "\<exists>h. exampleMap (ID (exampleSounds ! 0)) = Some (Some h)"
    using present[THEN mp, OF t, THEN bspec, OF s2(2), THEN mp, OF w0] unfolding m .
  have k: "Suc 0 < length exampleSounds" by (simp add: exampleSounds_def)
  note fail = bulk_load_absence_and_failure[OF example_late_fault, of 24, THEN conjunct2]
  have r: "fst (GetAllSoundsWithHistory ''tech'' 24 lateFaultDB) =
     ([], Map.empty, Some (Errorf ''failed to get sound history'' (Driver ''disk I/O error'')))"
    using fail[rule_format, of "Suc 0" "''disk I/O error''" "[]"] k by simp
  show ?thesis
    by (intro conjI example_category f t g a p example_late_fault k r)
qed

end
